theory Spec2Isabelle
  imports Main
begin

section \<open>Python strings and POSIX paths\<close>

text \<open>
  The program is a PyQt5 window, \<^verbatim>\<open>RF_Qt\<close> in \<^verbatim>\<open>ReadifyFont-Qt.py\<close>. Its strings are
  modelled as \<^typ>\<open>string\<close>; \<^verbatim>\<open>str.lower\<close> is modelled on the ASCII letters, which are
  the only ones the tokens looked for are made of.
\<close>

definition lower_char :: "char \<Rightarrow> char" where
  "lower_char c =
     (case map_of (zip ''ABCDEFGHIJKLMNOPQRSTUVWXYZ'' ''abcdefghijklmnopqrstuvwxyz'') c of
        Some l \<Rightarrow> l
      | None \<Rightarrow> c)"

definition lower :: "string \<Rightarrow> string" where
  "lower s = map lower_char s"

text \<open>\<^verbatim>\<open>s.startswith(p)\<close>.\<close>

fun startswith :: "string \<Rightarrow> string \<Rightarrow> bool" where
  "startswith s [] = True"
| "startswith [] (p # ps) = False"
| "startswith (c # cs) (p # ps) = (c = p \<and> startswith cs ps)"

text \<open>\<^verbatim>\<open>sub in s\<close>: \<open>sub\<close> occurs in \<open>s\<close> as a contiguous block.\<close>

fun str_in :: "string \<Rightarrow> string \<Rightarrow> bool" where
  "str_in sub [] = (sub = [])"
| "str_in sub (c # cs) = (startswith (c # cs) sub \<or> str_in sub cs)"

text \<open>\<^verbatim>\<open>s.split(sep)\<close> for a one-character separator: never the empty list.\<close>

fun split_sep :: "char \<Rightarrow> string \<Rightarrow> string list" where
  "split_sep sep [] = [[]]"
| "split_sep sep (c # cs) =
     (if c = sep then [] # split_sep sep cs
      else (case split_sep sep cs of
              w # ws \<Rightarrow> (c # w) # ws
            | [] \<Rightarrow> [[c]]))"

text \<open>\<^verbatim>\<open>sep.join(comps)\<close>.\<close>

fun join :: "string \<Rightarrow> string list \<Rightarrow> string" where
  "join sep [] = []"
| "join sep [x] = x"
| "join sep (x # y # ys) = x @ sep @ join sep (y # ys)"

text \<open>
  \<^verbatim>\<open>os.path.normpath\<close> as \<^verbatim>\<open>posixpath\<close> defines it. \<open>norm_step\<close> is the body of its
  loop over the components (\<open>cmp\<close> is the source's \<^verbatim>\<open>comp\<close>), \<open>new_comps\<close> the list it
  builds.
  \<^verbatim>\<open>
  if comp in (empty, dot): continue
  if (comp != dotdot or (not initial_slashes and not new_comps) or
       (new_comps and new_comps[-1] == dotdot)):
      new_comps.append(comp)
  elif new_comps:
      new_comps.pop()
  \<close>
\<close>

definition norm_step :: "nat \<Rightarrow> string list \<Rightarrow> string \<Rightarrow> string list" where
  "norm_step initial_slashes new_comps cmp =
     (if cmp = [] \<or> cmp = ''.'' then new_comps
      else if cmp \<noteq> ''..'' \<or> (initial_slashes = 0 \<and> new_comps = [])
              \<or> (new_comps \<noteq> [] \<and> last new_comps = ''..'')
        then new_comps @ [cmp]
      else if new_comps \<noteq> [] then butlast new_comps
      else new_comps)"

definition normpath :: "string \<Rightarrow> string" where
  "normpath path =
     (if path = [] then ''.''
      else
        let initial_slashes =
              (if startswith path ''/''
               then (if startswith path ''//'' \<and> \<not> startswith path ''///'' then 2 else 1)
               else 0);
            comps = foldl (norm_step initial_slashes) [] (split_sep CHR ''/'' path);
            p = replicate initial_slashes CHR ''/'' @ join ''/'' comps
        in if p = [] then ''.'' else p)"

text \<open>\<^verbatim>\<open>s.rfind(c)\<close>: the index of the last \<open>c\<close>, and \<open>-1\<close> when there is none.\<close>

definition rfind :: "string \<Rightarrow> char \<Rightarrow> int" where
  "rfind s c =
     (if c \<in> set s then int (length s) - 1 - int (length (takeWhile (\<lambda>x. x \<noteq> c) (rev s)))
      else - 1)"

text \<open>\<^verbatim>\<open>s.rstrip('/')\<close>.\<close>

definition rstrip_sep :: "string \<Rightarrow> string" where
  "rstrip_sep s = rev (dropWhile (\<lambda>x. x = CHR ''/'') (rev s))"

text \<open>
  \<^verbatim>\<open>os.path.split\<close> (\<^verbatim>\<open>posixpath\<close>):
  \<^verbatim>\<open>
  i = p.rfind(sep) + 1
  head, tail = p[:i], p[i:]
  if head and head != sep*len(head):
      head = head.rstrip(sep)
  return head, tail
  \<close>
\<close>

definition path_split :: "string \<Rightarrow> string \<times> string" where
  "path_split p =
     (let i = nat (rfind p CHR ''/'' + 1);
          head = take i p;
          tail = drop i p
      in (if head \<noteq> [] \<and> head \<noteq> replicate (length head) CHR ''/''
          then rstrip_sep head else head, tail))"

text \<open>\<^verbatim>\<open>str(n)\<close> for an integer.\<close>

fun str_nat :: "nat \<Rightarrow> string" where
  "str_nat n =
     (if n < 10 then [''0123456789'' ! n]
      else str_nat (n div 10) @ [''0123456789'' ! (n mod 10)])"

definition str_int :: "int \<Rightarrow> string" where
  "str_int i = (if i < 0 then CHR ''-'' # str_nat (nat (- i)) else str_nat (nat i))"

section \<open>The window and its state\<close>

definition SEL_REGULAR :: nat where "SEL_REGULAR = 1"
definition SEL_ITALIC :: nat where "SEL_ITALIC = 2"
definition SEL_BOLD :: nat where "SEL_BOLD = 3"
definition SEL_BOLDITALIC :: nat where "SEL_BOLDITALIC = 4"
definition SEL_NONE :: nat where "SEL_NONE = 0"

text \<open>A \<^verbatim>\<open>QComboBox\<close> of the font file grid: its current index and whether it is enabled.\<close>

record combo =
  cur_index :: nat
  cmb_enabled :: bool

text \<open>
  The module \<^verbatim>\<open>FontInfo\<close> is not among the sources. \<open>font_info\<close> holds the attributes of
  its class that the window writes; what \<^verbatim>\<open>FontInfo()\<close> sets them to at first is a
  parameter of \<open>init\<close> below, and its method \<^verbatim>\<open>gen_cli_command\<close> a parameter of
  \<open>gen_ttf\<close>.
\<close>

record font_info =
  font_name :: string
  leg_kern :: bool
  strip_panose :: bool
  name_hack :: bool
  change_hint :: string
  add_weight :: int
  mod_bearings :: bool
  out_dir :: "string option"
  font_file_reg :: "string option"
  font_file_it :: "string option"
  font_file_bd :: "string option"
  font_file_bi :: "string option"

text \<open>
  \<^verbatim>\<open>QProcess\<close>: its state (\<^verbatim>\<open>QProcess.ProcessState\<close>) and the program and arguments it
  was last started with.
\<close>

datatype process_state = NotRunning | Starting | Running

datatype exit_status = NormalExit | CrashExit

datatype process_error =
  FailedToStart | Crashed | Timedout | WriteError | ReadError | UnknownError

record qprocess =
  proc_state :: process_state
  proc_command :: "(string \<times> string list) option"

text \<open>
  \<^verbatim>\<open>QProcess.start\<close>, as Qt documents it: the process is started asynchronously (state
  \<open>Starting\<close>); on a \<^verbatim>\<open>QProcess\<close> that is already running a process a warning is
  printed and the existing process continues unaffected.
\<close>

definition start :: "string \<Rightarrow> string list \<Rightarrow> qprocess \<Rightarrow> qprocess" where
  "start program arguments p =
     (if proc_state p \<noteq> NotRunning then p
      else p\<lparr>proc_state := Starting, proc_command := Some (program, arguments)\<rparr>)"

text \<open>
  \<^verbatim>\<open>QProgressBar\<close>, as Qt implements it: \<^verbatim>\<open>setRange\<close> resets a value that the new range
  does not hold to one below the minimum, and \<^verbatim>\<open>setValue\<close> ignores a value outside the
  range unless the range is 0 to 0. A new bar has the range 0 to 100 and the value -1.
\<close>

record progress_bar =
  pb_minimum :: int
  pb_maximum :: int
  pb_value :: int

definition setRange :: "int \<Rightarrow> int \<Rightarrow> progress_bar \<Rightarrow> progress_bar" where
  "setRange minimum maximum b =
     (if minimum \<noteq> pb_minimum b \<or> maximum \<noteq> pb_maximum b then
        (let b1 = b\<lparr>pb_minimum := minimum, pb_maximum := max minimum maximum\<rparr>
         in if pb_value b1 < pb_minimum b1 - 1 \<or> pb_value b1 > pb_maximum b1
            then b1\<lparr>pb_value := pb_minimum b1 - 1\<rparr> else b1)
      else b)"

definition setValue :: "int \<Rightarrow> progress_bar \<Rightarrow> progress_bar" where
  "setValue v b =
     (if pb_value b = v
         \<or> ((v > pb_maximum b \<or> v < pb_minimum b) \<and> (pb_maximum b \<noteq> 0 \<or> pb_minimum b \<noteq> 0))
      then b else b\<lparr>pb_value := v\<rparr>)"

text \<open>
  The attributes of \<^verbatim>\<open>RF_Qt\<close> and the state of its widgets that a handler reads or
  writes. \<open>darken_opt\<close> and \<open>mod_bearing_checked\<close> are the check marks of the two check
  boxes; \<open>log_win\<close> is the document of the log window, paragraph by paragraph.
  \<open>path_searches\<close> is not an attribute: it counts the calls of \<^verbatim>\<open>helper.which\<close>.
\<close>

record rf_qt =
  fnt_sty_combo_list :: "combo list"
  fnt_file_name_list :: "string list"
  font_files :: "string list option"
  font_info :: font_info
  cli_process :: qprocess
  new_fnt_name :: string
  darken_opt :: bool
  mod_bearing_checked :: bool
  mod_bearing_enabled :: bool
  lbl_enabled :: bool
  darken_amount_value :: int
  darken_amount_enabled :: bool
  darken_amount_lab :: string
  darken_amount_lab_enabled :: bool
  gen_ttf_btn :: bool
  prog_bar :: progress_bar
  log_win :: "string list"
  ff_path :: "string option"
  path_searches :: nat

text \<open>
  What the handlers take from outside the source file, as parameters: the two parts of the
  repository that are not among the sources, the interpreter's default encoding
  (\<^verbatim>\<open>sys.getdefaultencoding()\<close>: \<^verbatim>\<open>'ascii'\<close> under Python 2, \<^verbatim>\<open>'utf-8'\<close> under Python 3),
  and the paragraphs that \<^verbatim>\<open>QTextEdit.append\<close> makes of a text: Qt breaks the text at its
  line ends, and reads a text that looks like rich text as HTML.
\<close>

datatype encoding = Ascii | Utf8

record env =
  valid_filename :: "string \<Rightarrow> bool"
  gen_cli_command :: "font_info \<Rightarrow> string list"
  getdefaultencoding :: encoding
  paragraphs :: "string \<Rightarrow> string list"

datatype py_error = TypeError | UnicodeDecodeError

text \<open>
  Decoding the bytes read from the process. A text is held as the bytes of its UTF-8
  form, so decoding returns the bytes it is given, or raises: under \<^verbatim>\<open>'ascii'\<close> on a byte
  above 127, under \<^verbatim>\<open>'utf-8'\<close> on bytes that are not well-formed UTF-8. \<open>utf8_cont\<close> is a
  continuation byte.
\<close>

definition utf8_cont :: "nat \<Rightarrow> bool" where
  "utf8_cont b = (128 \<le> b \<and> b \<le> 191)"

fun utf8_valid :: "nat list \<Rightarrow> bool" where
  "utf8_valid [] = True"
| "utf8_valid (b # bs) =
     (if b < 128 then utf8_valid bs
      else if 194 \<le> b \<and> b \<le> 223 then
        (case bs of c1 # r \<Rightarrow> utf8_cont c1 \<and> utf8_valid r | _ \<Rightarrow> False)
      else if 224 \<le> b \<and> b \<le> 239 then
        (case bs of
           c1 # c2 # r \<Rightarrow>
             (if b = 224 then 160 \<le> c1 \<and> c1 \<le> 191
              else if b = 237 then 128 \<le> c1 \<and> c1 \<le> 159
              else utf8_cont c1)
             \<and> utf8_cont c2 \<and> utf8_valid r
         | _ \<Rightarrow> False)
      else if 240 \<le> b \<and> b \<le> 244 then
        (case bs of
           c1 # c2 # c3 # r \<Rightarrow>
             (if b = 240 then 144 \<le> c1 \<and> c1 \<le> 191
              else if b = 244 then 128 \<le> c1 \<and> c1 \<le> 143
              else utf8_cont c1)
             \<and> utf8_cont c2 \<and> utf8_cont c3 \<and> utf8_valid r
         | _ \<Rightarrow> False)
      else False)"

definition decode :: "encoding \<Rightarrow> string \<Rightarrow> py_error + string" where
  "decode enc bytes =
     (case enc of
        Ascii \<Rightarrow>
          (if list_all (\<lambda>c. (of_char c :: nat) < 128) bytes then Inr bytes
           else Inl UnicodeDecodeError)
      | Utf8 \<Rightarrow>
          (if utf8_valid (map of_char bytes) then Inr bytes else Inl UnicodeDecodeError))"

text \<open>Python's truth of a value that is \<^verbatim>\<open>None\<close> or a string, and of one that is
  \<^verbatim>\<open>None\<close> or a list.\<close>

fun truthy :: "'a list option \<Rightarrow> bool" where
  "truthy None = False"
| "truthy (Some x) = (x \<noteq> [])"

section \<open>The handlers\<close>

text \<open>
  The handlers that a signal is connected to, in the order of the source.
  \<^verbatim>\<open>set_basic_opt\<close> is connected to no signal and is never called.

  \<^verbatim>\<open>set_ff_path\<close>: \<open>path\<close> is the file name the dialog returned, empty when the user
  cancelled it.
\<close>

definition set_ff_path :: "string \<Rightarrow> rf_qt \<Rightarrow> rf_qt" where
  "set_ff_path path s = (if path \<noteq> [] then s\<lparr>ff_path := Some (normpath path)\<rparr> else s)"

text \<open>
  \<^verbatim>\<open>__init__\<close>: \<open>fi\<close> is the new \<^verbatim>\<open>FontInfo()\<close>, \<open>found\<close> what
  \<^verbatim>\<open>helper.which('fontforge')\<close> returned and \<open>path\<close> the answer to the dialog of
  \<^verbatim>\<open>set_ff_path\<close>, asked only when nothing was found. Checking the first hinting button
  calls \<^verbatim>\<open>set_hint\<close>, which stores \<^verbatim>\<open>'keep'\<close>.
\<close>

definition init :: "font_info \<Rightarrow> string option \<Rightarrow> string \<Rightarrow> rf_qt" where
  "init fi found path =
     (let s = \<lparr>fnt_sty_combo_list =
                  replicate 4 \<lparr>cur_index = 0, cmb_enabled = False\<rparr>,
                fnt_file_name_list = replicate 4 ''Load font file...'',
                font_files = None,
                font_info = fi\<lparr>change_hint := ''keep''\<rparr>,
                cli_process = \<lparr>proc_state = NotRunning, proc_command = None\<rparr>,
                new_fnt_name = [],
                darken_opt = False,
                mod_bearing_checked = False,
                mod_bearing_enabled = False,
                lbl_enabled = False,
                darken_amount_value = 12,
                darken_amount_enabled = False,
                darken_amount_lab = str_int 12,
                darken_amount_lab_enabled = False,
                gen_ttf_btn = False,
                prog_bar =
                  setRange 0 100 \<lparr>pb_minimum = 0, pb_maximum = 100, pb_value = - 1\<rparr>,
                log_win = [],
                ff_path = found,
                path_searches = 1\<rparr>
      in if \<not> truthy (ff_path s) then set_ff_path path s else s)"

definition set_family_name :: "env \<Rightarrow> string \<Rightarrow> rf_qt \<Rightarrow> rf_qt" where
  "set_family_name e name s =
     (if name \<noteq> [] then
        (if valid_filename e name then
           (let s1 = s\<lparr>font_info := (font_info s)\<lparr>font_name := name\<rparr>\<rparr>
            in if truthy (font_files s1) then s1\<lparr>gen_ttf_btn := True\<rparr> else s1)
         else s\<lparr>gen_ttf_btn := False\<rparr>)
      else s\<lparr>gen_ttf_btn := False\<rparr>)"

definition set_darken_amount :: "int \<Rightarrow> rf_qt \<Rightarrow> rf_qt" where
  "set_darken_amount amount s =
     s\<lparr>darken_amount_lab := str_int amount,
       font_info := (font_info s)\<lparr>add_weight := amount\<rparr>\<rparr>"

text \<open>\<^verbatim>\<open>set_hint\<close>: \<open>text\<close> and \<open>checked\<close> are the sender's.\<close>

definition set_hint :: "string \<Rightarrow> bool \<Rightarrow> rf_qt \<Rightarrow> rf_qt" where
  "set_hint text checked s =
     (if checked then
        (if str_in ''keep'' (lower text)
           then s\<lparr>font_info := (font_info s)\<lparr>change_hint := ''keep''\<rparr>\<rparr>
         else if str_in ''remove'' (lower text)
           then s\<lparr>font_info := (font_info s)\<lparr>change_hint := ''remove''\<rparr>\<rparr>
         else if str_in ''auto'' (lower text)
           then s\<lparr>font_info := (font_info s)\<lparr>change_hint := ''auto''\<rparr>\<rparr>
         else s)
      else s)"

text \<open>\<^verbatim>\<open>set_darken_opt\<close>: the sender is the check box \<^verbatim>\<open>darken_opt\<close>.\<close>

definition set_darken_opt :: "rf_qt \<Rightarrow> rf_qt" where
  "set_darken_opt s =
     (if darken_opt s then
        set_darken_amount (darken_amount_value s)
          (s\<lparr>mod_bearing_enabled := True, lbl_enabled := True,
             darken_amount_lab_enabled := True, darken_amount_enabled := True\<rparr>)
      else
        set_darken_amount 0
          (s\<lparr>mod_bearing_enabled := False, lbl_enabled := False,
             darken_amount_lab_enabled := False, darken_amount_enabled := False\<rparr>))"

definition set_mod_bearing :: "rf_qt \<Rightarrow> rf_qt" where
  "set_mod_bearing s =
     (if mod_bearing_checked s
      then s\<lparr>font_info := (font_info s)\<lparr>mod_bearings := True\<rparr>\<rparr>
      else s\<lparr>font_info := (font_info s)\<lparr>mod_bearings := False\<rparr>\<rparr>)"

subsection \<open>\<^verbatim>\<open>load_fonts\<close>\<close>

text \<open>
  The first loop of \<^verbatim>\<open>load_fonts\<close>, over \<^verbatim>\<open>zip(fnt_file_name_list, fnt_sty_combo_list)\<close>:
  it resets every label and combo box. \<^verbatim>\<open>zip\<close> stops at the shorter list.
\<close>

fun reset_loop :: "string list \<Rightarrow> combo list \<Rightarrow> string list \<times> combo list" where
  "reset_loop (f_label # ls) (f_style # cs) =
     (let (ls', cs') = reset_loop ls cs
      in (''Load font file...'' # ls',
          f_style\<lparr>cur_index := SEL_NONE, cmb_enabled := False\<rparr> # cs'))"
| "reset_loop ls cs = (ls, cs)"

text \<open>The \<^verbatim>\<open>if\<close>/\<^verbatim>\<open>elif\<close> chain that selects a style from the file name.\<close>

definition select_style :: "string \<Rightarrow> combo \<Rightarrow> combo" where
  "select_style f_file f_style =
     (if str_in ''regular'' (lower f_file) then f_style\<lparr>cur_index := SEL_REGULAR\<rparr>
      else if str_in ''bold'' (lower f_file) \<and> str_in ''italic'' (lower f_file)
        then f_style\<lparr>cur_index := SEL_BOLDITALIC\<rparr>
      else if str_in ''bold'' (lower f_file) then f_style\<lparr>cur_index := SEL_BOLD\<rparr>
      else if str_in ''italic'' (lower f_file) then f_style\<lparr>cur_index := SEL_ITALIC\<rparr>
      else f_style)"

text \<open>
  The loop over \<^verbatim>\<open>zip(f_f_names, fnt_file_name_list, fnt_sty_combo_list)\<close>: it stops at
  the shortest of the three lists, and leaves the widgets it does not reach as they are.
\<close>

fun label_loop :: "string list \<Rightarrow> string list \<Rightarrow> combo list \<Rightarrow> string list \<times> combo list" where
  "label_loop (f_file # fs) (f_label # ls) (f_style # cs) =
     (let (ls', cs') = label_loop fs ls cs
      in (f_file # ls', select_style f_file (f_style\<lparr>cmb_enabled := True\<rparr>) # cs'))"
| "label_loop fs ls cs = (ls, cs)"

text \<open>
  \<^verbatim>\<open>load_fonts\<close>: \<open>f_f\<close> is the list of file names the dialog returned (\<^verbatim>\<open>f_f[0]\<close> of
  the source), empty when the user cancelled it.
\<close>

definition load_fonts :: "string list \<Rightarrow> rf_qt \<Rightarrow> rf_qt" where
  "load_fonts f_f s =
     (if f_f \<noteq> [] then
        (let (ls0, cs0) = reset_loop (fnt_file_name_list s) (fnt_sty_combo_list s);
             f_f_names = map (\<lambda>file. snd (path_split (normpath file))) f_f;
             (ls1, cs1) = label_loop f_f_names ls0 cs0;
             s1 = s\<lparr>fnt_file_name_list := ls1, fnt_sty_combo_list := cs1,
                    font_files := Some f_f\<rparr>
         in if new_fnt_name s1 \<noteq> [] then s1\<lparr>gen_ttf_btn := True\<rparr> else s1)
      else s)"

subsection \<open>The process\<close>

text \<open>
  \<^verbatim>\<open>read_proc_output\<close>: \<open>available\<close> is what \<^verbatim>\<open>readAllStandardOutput\<close> returns, the bytes
  that are ready on the channel in which \<^verbatim>\<open>QProcess\<close> merges the standard output and the
  standard error of the process (\<^verbatim>\<open>MergedChannels\<close>). \<^verbatim>\<open>QTextEdit.append\<close> adds its
  paragraphs after those of the document.
\<close>

definition read_proc_output :: "env \<Rightarrow> string \<Rightarrow> rf_qt \<Rightarrow> py_error + rf_qt" where
  "read_proc_output e available s =
     (case decode (getdefaultencoding e) available of
        Inl err \<Rightarrow> Inl err
      | Inr output \<Rightarrow> Inr (s\<lparr>log_win := log_win s @ paragraphs e output\<rparr>))"

text \<open>\<^verbatim>\<open>manage_proc\<close>: the sender is \<^verbatim>\<open>cli_process\<close>. It takes no argument of the signal.\<close>

definition manage_proc :: "rf_qt \<Rightarrow> rf_qt" where
  "manage_proc s =
     (let s1 = (if proc_state (cli_process s) = Running
                then s\<lparr>prog_bar := setRange 0 0 (prog_bar s)\<rparr> else s)
      in if proc_state (cli_process s1) = NotRunning
         then s1\<lparr>prog_bar := setValue 100 (setRange 0 100 (prog_bar s1))\<rparr> else s1)"

text \<open>
  The loop of \<^verbatim>\<open>gen_ttf\<close> over \<^verbatim>\<open>zip(self.font_files, self.fnt_sty_combo_list)\<close>.
\<close>

fun assign_loop :: "string list \<Rightarrow> combo list \<Rightarrow> font_info \<Rightarrow> font_info" where
  "assign_loop (file # fs) (style # cs) fi =
     assign_loop fs cs
       (if cur_index style = SEL_REGULAR then fi\<lparr>font_file_reg := Some file\<rparr>
        else if cur_index style = SEL_BOLDITALIC then fi\<lparr>font_file_bi := Some file\<rparr>
        else if cur_index style = SEL_BOLD then fi\<lparr>font_file_bd := Some file\<rparr>
        else if cur_index style = SEL_ITALIC then fi\<lparr>font_file_it := Some file\<rparr>
        else fi)"
| "assign_loop fs cs fi = fi"

text \<open>
  The end of \<^verbatim>\<open>gen_ttf\<close>, reached when a save directory is chosen: the loop, the command
  and the start of the process. \<^verbatim>\<open>zip\<close> of \<^verbatim>\<open>None\<close> raises \<^verbatim>\<open>TypeError\<close>.
\<close>

definition assign_and_start :: "env \<Rightarrow> rf_qt \<Rightarrow> py_error + rf_qt" where
  "assign_and_start e s =
     (case font_files s of
        None \<Rightarrow> Inl TypeError
      | Some files \<Rightarrow>
          (let s1 = s\<lparr>font_info := assign_loop files (fnt_sty_combo_list s) (font_info s)\<rparr>;
               cli_opt_list = gen_cli_command e (font_info s1)
           in Inr (s1\<lparr>cli_process :=
                       start (the (ff_path s1)) cli_opt_list (cli_process s1)\<rparr>)))"

text \<open>
  \<^verbatim>\<open>gen_ttf\<close>: \<open>path\<close> is the answer to the dialog of \<^verbatim>\<open>set_ff_path\<close>, asked only
  when \<^verbatim>\<open>ff_path\<close> is not set, and \<open>dir\<close> the directory the save dialog returned,
  empty when cancelled. The two branches on \<^verbatim>\<open>out_dir\<close> differ in the directory the
  dialog opens in, and in nothing else. The dialogs are taken as answered within the call:
  no other event is handled while one is open.
\<close>

definition gen_ttf :: "env \<Rightarrow> string \<Rightarrow> string \<Rightarrow> rf_qt \<Rightarrow> py_error + rf_qt" where
  "gen_ttf e path dir s =
     (let s1 = s\<lparr>log_win := []\<rparr>;
          s2 = (if \<not> truthy (ff_path s1) then set_ff_path path s1 else s1)
      in if truthy (ff_path s2) then
           (if \<not> truthy (out_dir (font_info s2)) then
              (let save_dir = normpath dir
               in if save_dir = ''.'' \<or> save_dir = [] then Inr s2
                  else assign_and_start e
                         (s2\<lparr>font_info := (font_info s2)\<lparr>out_dir := Some save_dir\<rparr>\<rparr>))
            else
              (let save_dir = normpath dir
               in if save_dir = ''.'' \<or> save_dir = [] then Inr s2
                  else assign_and_start e
                         (s2\<lparr>font_info := (font_info s2)\<lparr>out_dir := Some save_dir\<rparr>\<rparr>)))
         else Inr s2)"

section \<open>Events\<close>

text \<open>
  What Qt delivers to the window: the signals that the handlers are connected to, and the
  user's choice of a style in a combo box, which no handler is connected to. A disabled
  widget takes no input. \<^verbatim>\<open>readyRead\<close> comes with the bytes that are ready to be read. \<^verbatim>\<open>textEdited\<close> carries the new text of the line edit;
  \<^verbatim>\<open>valueChanged\<close> is emitted when the slider's value changes, within its range of 1 to
  50; a click on a check box flips its mark before \<^verbatim>\<open>toggled\<close> is emitted.
  The process signals \<^verbatim>\<open>started\<close>, \<^verbatim>\<open>finished\<close> and \<^verbatim>\<open>error\<close> all call
  \<^verbatim>\<open>manage_proc\<close>, when \<^verbatim>\<open>QProcess\<close> has set its state: \<open>Running\<close> once started,
  \<open>NotRunning\<close> once finished or failed to start.
\<close>

datatype event =
    TextEdited string
  | HintToggled string bool
  | DarkenToggled
  | ModBearingToggled
  | SliderMoved int
  | StyleChosen nat nat
  | LoadFontsClicked "string list"
  | GenTtfClicked string string
  | ProcStarted
  | ProcFinished int exit_status
  | ProcError process_error
  | ReadyRead string

definition set_proc_state :: "process_state \<Rightarrow> rf_qt \<Rightarrow> rf_qt" where
  "set_proc_state st s = s\<lparr>cli_process := (cli_process s)\<lparr>proc_state := st\<rparr>\<rparr>"

fun step :: "env \<Rightarrow> event \<Rightarrow> rf_qt \<Rightarrow> py_error + rf_qt" where
  "step e (TextEdited name) s = Inr (set_family_name e name (s\<lparr>new_fnt_name := name\<rparr>))"
| "step e (HintToggled text checked) s = Inr (set_hint text checked s)"
| "step e DarkenToggled s = Inr (set_darken_opt (s\<lparr>darken_opt := \<not> darken_opt s\<rparr>))"
| "step e ModBearingToggled s =
     Inr (if mod_bearing_enabled s
          then set_mod_bearing (s\<lparr>mod_bearing_checked := \<not> mod_bearing_checked s\<rparr>)
          else s)"
| "step e (SliderMoved v) s =
     Inr (if darken_amount_enabled s \<and> 1 \<le> v \<and> v \<le> 50 \<and> v \<noteq> darken_amount_value s
          then set_darken_amount v (s\<lparr>darken_amount_value := v\<rparr>)
          else s)"
| "step e (StyleChosen i j) s =
     Inr (if i < length (fnt_sty_combo_list s) \<and> cmb_enabled (fnt_sty_combo_list s ! i) \<and> j \<le> 4
          then s\<lparr>fnt_sty_combo_list :=
                  (fnt_sty_combo_list s)[i := (fnt_sty_combo_list s ! i)\<lparr>cur_index := j\<rparr>]\<rparr>
          else s)"
| "step e (LoadFontsClicked f_f) s = Inr (load_fonts f_f s)"
| "step e (GenTtfClicked p d) s = (if gen_ttf_btn s then gen_ttf e p d s else Inr s)"
| "step e ProcStarted s =
     Inr (if proc_state (cli_process s) = Starting
          then manage_proc (set_proc_state Running s) else s)"
| "step e (ProcFinished exit_code status) s =
     Inr (if proc_state (cli_process s) = Running
          then manage_proc (set_proc_state NotRunning s) else s)"
| "step e (ProcError err) s =
     Inr (if err = FailedToStart
          then (if proc_state (cli_process s) = Starting
                then manage_proc (set_proc_state NotRunning s) else s)
          else manage_proc s)"
| "step e (ReadyRead available) s = read_proc_output e available s"

text \<open>A session: the events in turn, until a handler raises.\<close>

fun run :: "env \<Rightarrow> event list \<Rightarrow> rf_qt \<Rightarrow> py_error + rf_qt" where
  "run e [] s = Inr s"
| "run e (ev # evs) s = (case step e ev s of Inl err \<Rightarrow> Inl err | Inr s' \<Rightarrow> run e evs s')"

text \<open>A \<^verbatim>\<open>FontInfo\<close> and an environment to evaluate the handlers on.\<close>

definition fi0 :: font_info where
  "fi0 = \<lparr>font_name = [], leg_kern = False, strip_panose = False, name_hack = False,
          change_hint = [], add_weight = 0, mod_bearings = False, out_dir = None,
          font_file_reg = None, font_file_it = None, font_file_bd = None,
          font_file_bi = None\<rparr>"

definition env0 :: env where
  "env0 = \<lparr>valid_filename = (\<lambda>name. CHR ''/'' \<notin> set name), gen_cli_command = (\<lambda>fi. []),
            getdefaultencoding = Utf8, paragraphs = split_sep (CHR 0x0A)\<rparr>"

definition s0 :: rf_qt where
  "s0 = init fi0 (Some ''/usr/bin/fontforge'') []"

section \<open>The command builder of the specification\<close>

text \<open>
  The window hands its \<^verbatim>\<open>FontInfo\<close> to \<^verbatim>\<open>FontInfo.gen_cli_command\<close>, which builds the
  argument list and is not among the sources. The definitions of this section follow the
  specification's data model and its sections on the name validator and the command
  builder instead.
\<close>

datatype StyleSlot = Regular | Italic | Bold | BoldItalic | Unassigned

record FontFileEntry =
  path :: string
  slot :: StyleSlot

datatype HintMode = Keep | Remove | Auto

record JobConfiguration =
  familyName :: string
  files :: "FontFileEntry list"
  legacyKerning :: bool
  stripPanose :: bool
  nameHack :: bool
  hintMode :: HintMode
  darkenEnabled :: bool
  darkenAmount :: int
  modifyBearings :: bool
  outputDir :: "string option"
  executablePath :: "string option"

datatype build_error = ConfigIncomplete

text \<open>
  Modelled from the spec: \<^verbatim>\<open>helper.valid_filename\<close> is missing; the specification's name
  validator rejects the empty string, a string with a reserved character (at the least
  \<^verbatim>\<open>/ \ : * ? " < > |\<close>) and a string of white space only.
\<close>

definition reserved_chars :: "char list" where
  "reserved_chars =
     [CHR ''/'', CHR 0x5C, CHR '':'', CHR ''*'', CHR ''?'', CHR 0x22, CHR ''<'', CHR ''>'',
      CHR ''|'']"

definition whitespace_chars :: "char list" where
  "whitespace_chars = [CHR '' '', CHR 0x09, CHR 0x0A, CHR 0x0B, CHR 0x0C, CHR 0x0D]"

definition isValidFamilyName :: "string \<Rightarrow> bool" where
  "isValidFamilyName name =
     (name \<noteq> [] \<and> \<not> list_ex (\<lambda>c. c \<in> set reserved_chars) name
      \<and> \<not> list_all (\<lambda>c. c \<in> set whitespace_chars) name)"

text \<open>
  An argument of the command is a flag of the builder's own or a value taken from the
  configuration; the command is the list of their strings.
\<close>

datatype arg = Flag string | Val string

fun render :: "arg \<Rightarrow> string" where
  "render (Flag f) = f"
| "render (Val v) = v"

text \<open>The arguments of one style slot: those of the first entry assigned to it, if any.\<close>

definition slot_args :: "string \<Rightarrow> StyleSlot \<Rightarrow> FontFileEntry list \<Rightarrow> arg list" where
  "slot_args flag sl fs =
     (case find (\<lambda>f. slot f = sl) fs of
        None \<Rightarrow> []
      | Some f \<Rightarrow> [Flag flag, Val (path f)])"

definition hint_flag :: "HintMode \<Rightarrow> string" where
  "hint_flag h =
     (case h of Keep \<Rightarrow> ''--hint-keep'' | Remove \<Rightarrow> ''--hint-remove''
      | Auto \<Rightarrow> ''--hint-auto'')"

text \<open>
  Modelled from the spec: \<^verbatim>\<open>FontInfo.gen_cli_command\<close> is missing; \<open>build\<close> is the
  specification's command builder, with its fixed order of arguments: the family name, a
  pair for each assigned slot, the flags of the enabled options, the hinting flag, the
  darkening arguments when darkening is enabled, the output directory. It fails when no
  file is assigned, when the family name is not valid, or when no output directory is set.
  \<open>build_args\<close> is the list of arguments before they are turned into strings.
\<close>

definition build_args :: "JobConfiguration \<Rightarrow> build_error + arg list" where
  "build_args config =
     (if \<not> list_ex (\<lambda>f. slot f \<noteq> Unassigned) (files config) then Inl ConfigIncomplete
      else if \<not> isValidFamilyName (familyName config) then Inl ConfigIncomplete
      else case outputDir config of
        None \<Rightarrow> Inl ConfigIncomplete
      | Some dir \<Rightarrow>
          Inr ([Val (familyName config)]
               @ slot_args ''--regular-file'' Regular (files config)
               @ slot_args ''--italic-file'' Italic (files config)
               @ slot_args ''--bold-file'' Bold (files config)
               @ slot_args ''--bolditalic-file'' BoldItalic (files config)
               @ (if legacyKerning config then [Flag ''--legacy-kerning''] else [])
               @ (if stripPanose config then [Flag ''--strip-panose''] else [])
               @ (if nameHack config then [Flag ''--alt-name''] else [])
               @ [Flag (hint_flag (hintMode config))]
               @ (if darkenEnabled config
                  then [Flag ''--darken'', Val (str_int (darkenAmount config))]
                       @ (if modifyBearings config then [Flag ''--fix-bearings''] else [])
                  else [])
               @ [Flag ''--out-dir'', Val dir]))"

definition build :: "JobConfiguration \<Rightarrow> build_error + string list" where
  "build config = map_sum id (map render) (build_args config)"

text \<open>The configuration of the specification's scenario, to evaluate \<open>build\<close> on.\<close>

definition config0 :: JobConfiguration where
  "config0 =
     \<lparr>familyName = ''MyFont'', files = [\<lparr>path = ''a.ttf'', slot = Regular\<rparr>],
      legacyKerning = False, stripPanose = False, nameHack = False, hintMode = Keep,
      darkenEnabled = False, darkenAmount = 30, modifyBearings = True,
      outputDir = Some ''/out'', executablePath = None\<rparr>"

section \<open>Strings and the loops over the widgets\<close>

lemma startswith_iff: "startswith s p \<longleftrightarrow> (\<exists>r. s = p @ r)"
  by (induction s p rule: startswith.induct) auto

lemma str_in_iff: "str_in sub s \<longleftrightarrow> (\<exists>p q. s = p @ sub @ q)"
proof (induction s)
  case Nil
  then show ?case by auto
next
  case (Cons c cs)
  show ?case
  proof
    assume "str_in sub (c # cs)"
    then consider "startswith (c # cs) sub" | "str_in sub cs" by auto
    then show "\<exists>p q. c # cs = p @ sub @ q"
    proof cases
      case 1
      then obtain r where "c # cs = sub @ r" by (auto simp: startswith_iff)
      then have "c # cs = [] @ sub @ r" by simp
      then show ?thesis by blast
    next
      case 2
      then obtain p q where "cs = p @ sub @ q" using Cons.IH by auto
      then have "c # cs = (c # p) @ sub @ q" by simp
      then show ?thesis by blast
    qed
  next
    assume "\<exists>p q. c # cs = p @ sub @ q"
    then obtain p q where pq: "c # cs = p @ sub @ q" by blast
    show "str_in sub (c # cs)"
    proof (cases p)
      case Nil
      then have "startswith (c # cs) sub" using pq by (auto simp: startswith_iff)
      then show ?thesis by simp
    next
      case (Cons x p')
      then have "cs = p' @ sub @ q" using pq by simp
      then have "str_in sub cs" using Cons.IH by blast
      then show ?thesis by simp
    qed
  qed
qed

lemma reset_loop_length:
  "length (fst (reset_loop ls cs)) = length ls \<and> length (snd (reset_loop ls cs)) = length cs"
  by (induction ls cs rule: reset_loop.induct) (auto split: prod.splits)

lemma label_loop_length:
  "length (fst (label_loop fs ls cs)) = length ls \<and> length (snd (label_loop fs ls cs)) = length cs"
  by (induction fs ls cs rule: label_loop.induct) (auto split: prod.splits)

lemma reset_loop_nth:
  "i < length ls \<Longrightarrow> i < length cs \<Longrightarrow>
   fst (reset_loop ls cs) ! i = ''Load font file...'' \<and>
   snd (reset_loop ls cs) ! i = (cs ! i)\<lparr>cur_index := SEL_NONE, cmb_enabled := False\<rparr>"
  by (induction ls cs arbitrary: i rule: reset_loop.induct)
     (auto split: prod.splits simp: nth_Cons split: nat.splits)

lemma label_loop_nth:
  "i < length fs \<Longrightarrow> i < length ls \<Longrightarrow> i < length cs \<Longrightarrow>
   fst (label_loop fs ls cs) ! i = fs ! i \<and>
   snd (label_loop fs ls cs) ! i = select_style (fs ! i) ((cs ! i)\<lparr>cmb_enabled := True\<rparr>)"
  by (induction fs ls cs arbitrary: i rule: label_loop.induct)
     (auto split: prod.splits simp: nth_Cons split: nat.splits)

lemma normpath_nonempty: "normpath p \<noteq> []"
  by (simp add: normpath_def Let_def)

section \<open>Sessions\<close>

text \<open>A property that the start has and every event keeps holds after the session.\<close>

lemma run_invariant:
  assumes "P s" and "\<And>ev s s'. P s \<Longrightarrow> step e ev s = Inr s' \<Longrightarrow> P s'"
    and "run e evs s = Inr s'"
  shows "P s'"
  using assms(1,3)
proof (induction evs arbitrary: s)
  case Nil
  then show ?case by simp
next
  case (Cons ev evs)
  then obtain s1 where s1: "step e ev s = Inr s1" and r: "run e evs s1 = Inr s'"
    by (auto split: sum.splits)
  from assms(2)[OF Cons.prems(1) s1] have "P s1" .
  from Cons.IH[OF this r] show ?case .
qed

lemmas handler_defs =
  set_family_name_def set_hint_def set_darken_opt_def set_darken_amount_def
  set_mod_bearing_def read_proc_output_def manage_proc_def set_proc_state_def
  set_ff_path_def

lemma load_fonts_widgets:
  "length (fnt_sty_combo_list (load_fonts f_f s)) = length (fnt_sty_combo_list s) \<and>
   length (fnt_file_name_list (load_fonts f_f s)) = length (fnt_file_name_list s)"
  using reset_loop_length[of "fnt_file_name_list s" "fnt_sty_combo_list s"]
        label_loop_length[of "map (\<lambda>file. snd (path_split (normpath file))) f_f"
          "fst (reset_loop (fnt_file_name_list s) (fnt_sty_combo_list s))"
          "snd (reset_loop (fnt_file_name_list s) (fnt_sty_combo_list s))"]
  by (auto simp: load_fonts_def Let_def split: prod.splits)

lemma gen_ttf_widgets:
  "gen_ttf e p d s = Inr s' \<Longrightarrow>
   fnt_sty_combo_list s' = fnt_sty_combo_list s \<and> fnt_file_name_list s' = fnt_file_name_list s
   \<and> font_files s' = font_files s \<and> new_fnt_name s' = new_fnt_name s
   \<and> gen_ttf_btn s' = gen_ttf_btn s \<and> darken_opt s' = darken_opt s
   \<and> mod_bearing_enabled s' = mod_bearing_enabled s
   \<and> mod_bearing_checked s' = mod_bearing_checked s
   \<and> path_searches s' = path_searches s"
  by (auto simp: gen_ttf_def assign_and_start_def Let_def set_ff_path_def split: if_splits option.splits)

lemma step_widgets:
  "step e ev s = Inr s' \<Longrightarrow>
   length (fnt_sty_combo_list s') = length (fnt_sty_combo_list s) \<and>
   length (fnt_file_name_list s') = length (fnt_file_name_list s)"
  by (cases ev)
     (auto simp: handler_defs load_fonts_widgets Let_def dest: gen_ttf_widgets
        split: if_splits sum.splits)

lemma init_widgets:
  "length (fnt_sty_combo_list (init fi found a)) = 4 \<and>
   length (fnt_file_name_list (init fi found a)) = 4"
  by (simp add: init_def Let_def set_ff_path_def)

lemma run_widgets:
  assumes "run e evs (init fi found a) = Inr s"
  shows "length (fnt_sty_combo_list s) = 4 \<and> length (fnt_file_name_list s) = 4"
  by (rule run_invariant[where P = "\<lambda>s. length (fnt_sty_combo_list s) = 4 \<and> length (fnt_file_name_list s) = 4", OF init_widgets _ assms])
     (use step_widgets in fastforce)

lemma combo_update_all:
  "(c::combo)\<lparr>cur_index := a, cmb_enabled := b\<rparr> = \<lparr>cur_index = a, cmb_enabled = b\<rparr>"
  by (cases c) simp

lemma load_fonts_combo:
  assumes "i < length f_f" and "i < length (fnt_sty_combo_list s)"
    and "i < length (fnt_file_name_list s)"
  shows "fnt_sty_combo_list (load_fonts f_f s) ! i =
           select_style (snd (path_split (normpath (f_f ! i))))
             \<lparr>cur_index = SEL_NONE, cmb_enabled = True\<rparr>
         \<and> fnt_file_name_list (load_fonts f_f s) ! i = snd (path_split (normpath (f_f ! i)))"
proof -
  let ?r = "reset_loop (fnt_file_name_list s) (fnt_sty_combo_list s)"
  let ?names = "map (\<lambda>file. snd (path_split (normpath file))) f_f"
  have ne: "f_f \<noteq> []" using assms(1) by auto
  have l: "i < length (fst ?r)" "i < length (snd ?r)" "i < length ?names"
    using assms reset_loop_length[of "fnt_file_name_list s" "fnt_sty_combo_list s"] by auto
  have r: "snd ?r ! i = (fnt_sty_combo_list s ! i)\<lparr>cur_index := SEL_NONE, cmb_enabled := False\<rparr>"
    using reset_loop_nth[OF assms(3,2)] by simp
  have "snd (label_loop ?names (fst ?r) (snd ?r)) ! i
          = select_style (?names ! i) ((snd ?r ! i)\<lparr>cmb_enabled := True\<rparr>)"
       "fst (label_loop ?names (fst ?r) (snd ?r)) ! i = ?names ! i"
    using label_loop_nth[OF l(3) l(1) l(2)] by auto
  then show ?thesis
    using ne r assms(1) by (auto simp: load_fonts_def Let_def combo_update_all split: prod.splits)
qed


section \<open>The style selected for a loaded file\<close>

text \<open>
  C1 (as the code has it). In any session, when \<^verbatim>\<open>load_fonts\<close> loads the files \<open>f_f\<close>,
  the style selected for each of the first four depends on the file name component of its
  normalised path only, in lower case, and \<open>regular\<close> comes first: a name with
  \<open>regular\<close> in it selects Regular; else one with both \<open>bold\<close> and \<open>italic\<close> selects
  Bold Italic; else one with \<open>bold\<close> selects Bold; else one with \<open>italic\<close> selects Italic;
  any other name leaves the combo box on its empty first item.
\<close>

theorem load_fonts_classifies:
  assumes "run e evs (init fi found a) = Inr s" and "i < length f_f" and "i < 4"
  shows "cur_index (fnt_sty_combo_list (load_fonts f_f s) ! i) =
           (let name = lower (snd (path_split (normpath (f_f ! i))));
                has = (\<lambda>token. \<exists>p q. name = p @ token @ q)
            in if has ''regular'' then SEL_REGULAR
               else if has ''bold'' \<and> has ''italic'' then SEL_BOLDITALIC
               else if has ''bold'' then SEL_BOLD
               else if has ''italic'' then SEL_ITALIC
               else SEL_NONE)"
proof -
  have "length (fnt_sty_combo_list s) = 4" "length (fnt_file_name_list s) = 4"
    using run_widgets[OF assms(1)] by auto
  then have "fnt_sty_combo_list (load_fonts f_f s) ! i =
           select_style (snd (path_split (normpath (f_f ! i))))
             \<lparr>cur_index = SEL_NONE, cmb_enabled = True\<rparr>"
    using load_fonts_combo[of i f_f s] assms(2,3) by simp
  then show ?thesis
    by (simp add: select_style_def Let_def str_in_iff)
qed

theorem load_fonts_classifies_witness:
  "cur_index (fnt_sty_combo_list
     (load_fonts [''/fonts/Foo-BoldItalic.ttf'', ''/fonts/bold/Foo.ttf''] s0) ! 0) = SEL_BOLDITALIC
   \<and> cur_index (fnt_sty_combo_list
     (load_fonts [''/fonts/Foo-BoldItalic.ttf'', ''/fonts/bold/Foo.ttf''] s0) ! 1) = SEL_NONE"
proof -
  have r: "run env0 [] (init fi0 (Some ''/usr/bin/fontforge'') []) = Inr s0"
    by (simp add: s0_def)
  have n0: "lower (snd (path_split (normpath ''/fonts/Foo-BoldItalic.ttf''))) = ''foo-bolditalic.ttf''"
    by (simp add: normpath_def norm_step_def path_split_def rfind_def rstrip_sep_def
        lower_def lower_char_def)
  have n1: "lower (snd (path_split (normpath ''/fonts/bold/Foo.ttf''))) = ''foo.ttf''"
    by (simp add: normpath_def norm_step_def path_split_def rfind_def rstrip_sep_def
        lower_def lower_char_def)
  show ?thesis
    using load_fonts_classifies[OF r, of 0 "[''/fonts/Foo-BoldItalic.ttf'', ''/fonts/bold/Foo.ttf'']"]
      load_fonts_classifies[OF r, of 1 "[''/fonts/Foo-BoldItalic.ttf'', ''/fonts/bold/Foo.ttf'']"]
    by (simp add: n0 n1 Let_def str_in_iff[symmetric])
qed

text \<open>
  C1 as stated puts Bold Italic before Regular. The source tests \<open>regular\<close> first: a
  file name with all of \<open>regular\<close>, \<open>bold\<close> and \<open>italic\<close> in it selects Regular.
\<close>

theorem classify_regular_first_counterexample:
  "cur_index (fnt_sty_combo_list (load_fonts [''/fonts/Foo-Regular-BoldItalic.ttf''] s0) ! 0)
     = SEL_REGULAR
   \<and> cur_index (fnt_sty_combo_list (load_fonts [''/fonts/Foo-Regular-BoldItalic.ttf''] s0) ! 0)
     \<noteq> SEL_BOLDITALIC"
  by (simp add: s0_def init_def load_fonts_def select_style_def Let_def
      normpath_def norm_step_def path_split_def rfind_def rstrip_sep_def
      lower_def lower_char_def SEL_REGULAR_def SEL_BOLDITALIC_def SEL_NONE_def numeral_eq_Suc)

section \<open>Darkening and the bearings\<close>

lemma assign_loop_keeps:
  "mod_bearings (assign_loop fs cs fi) = mod_bearings fi \<and>
   add_weight (assign_loop fs cs fi) = add_weight fi \<and>
   out_dir (assign_loop fs cs fi) = out_dir fi \<and>
   font_name (assign_loop fs cs fi) = font_name fi"
  by (induction fs cs fi rule: assign_loop.induct) auto

lemma gen_ttf_mod_bearings:
  "gen_ttf e p d s = Inr s' \<Longrightarrow> mod_bearings (font_info s') = mod_bearings (font_info s)"
  by (auto simp: gen_ttf_def assign_and_start_def Let_def set_ff_path_def assign_loop_keeps
      split: if_splits option.splits)

lemma load_fonts_keeps:
  "font_info (load_fonts f_f s) = font_info s \<and> darken_opt (load_fonts f_f s) = darken_opt s
   \<and> mod_bearing_enabled (load_fonts f_f s) = mod_bearing_enabled s
   \<and> mod_bearing_checked (load_fonts f_f s) = mod_bearing_checked s
   \<and> path_searches (load_fonts f_f s) = path_searches s
   \<and> ff_path (load_fonts f_f s) = ff_path s
   \<and> new_fnt_name (load_fonts f_f s) = new_fnt_name s
   \<and> cli_process (load_fonts f_f s) = cli_process s"
  by (simp add: load_fonts_def Let_def split: prod.splits)

lemma step_darken_widgets:
  "step e ev s = Inr s' \<Longrightarrow> mod_bearing_enabled s = darken_opt s \<Longrightarrow>
   mod_bearing_enabled s' = darken_opt s'"
  by (cases ev)
     (auto simp: handler_defs load_fonts_keeps Let_def dest: gen_ttf_widgets
        split: if_splits sum.splits)

lemma run_darken_widgets:
  assumes "run e evs (init fi found a) = Inr s"
  shows "mod_bearing_enabled s = darken_opt s"
proof (rule run_invariant[where P = "\<lambda>s. mod_bearing_enabled s = darken_opt s", OF _ _ assms])
  show "mod_bearing_enabled (init fi found a) = darken_opt (init fi found a)"
    by (simp add: init_def Let_def set_ff_path_def)
qed (rule step_darken_widgets)

text \<open>
  C3 (as the code has it). In any session the Modify Bearings check box is enabled
  exactly when Darken Font is checked, so \<^verbatim>\<open>font_info.mod_bearings\<close> changes only by a
  click on Modify Bearings while darkening is enabled. Toggling Darken Font leaves both the
  check mark of Modify Bearings and \<^verbatim>\<open>font_info.mod_bearings\<close> as they are: switching
  darkening off disables the check box and does not reset the value.
\<close>

theorem mod_bearings_set_only_while_darkening:
  assumes "run e evs (init fi found a) = Inr s" and "step e ev s = Inr s'"
  shows "mod_bearing_enabled s' = darken_opt s'
         \<and> (mod_bearings (font_info s') \<noteq> mod_bearings (font_info s)
              \<longrightarrow> ev = ModBearingToggled \<and> darken_opt s)
         \<and> (ev = DarkenToggled
              \<longrightarrow> mod_bearing_checked s' = mod_bearing_checked s
                  \<and> mod_bearings (font_info s') = mod_bearings (font_info s))"
proof -
  have inv: "mod_bearing_enabled s = darken_opt s"
    using run_darken_widgets[OF assms(1)] .
  have 1: "mod_bearing_enabled s' = darken_opt s'"
    using step_darken_widgets[OF assms(2) inv] .
  have 2: "mod_bearings (font_info s') \<noteq> mod_bearings (font_info s)
             \<longrightarrow> ev = ModBearingToggled \<and> darken_opt s"
    using assms(2) inv
    by (cases ev)
       (auto simp: handler_defs load_fonts_keeps Let_def dest: gen_ttf_mod_bearings
          split: if_splits sum.splits)
  have 3: "ev = DarkenToggled
              \<longrightarrow> mod_bearing_checked s' = mod_bearing_checked s
                  \<and> mod_bearings (font_info s') = mod_bearings (font_info s)"
    using assms(2) by (auto simp: handler_defs split: if_splits)
  from 1 2 3 show ?thesis by blast
qed

theorem mod_bearings_set_only_while_darkening_witness:
  "run env0 [DarkenToggled] (init fi0 (Some ''/usr/bin/fontforge'') [])
     = Inr (set_darken_opt (s0\<lparr>darken_opt := True\<rparr>))
   \<and> step env0 ModBearingToggled (set_darken_opt (s0\<lparr>darken_opt := True\<rparr>))
     = Inr (set_mod_bearing (set_darken_opt (s0\<lparr>darken_opt := True\<rparr>)\<lparr>mod_bearing_checked := True\<rparr>))
   \<and> mod_bearing_enabled
        (set_mod_bearing (set_darken_opt (s0\<lparr>darken_opt := True\<rparr>)\<lparr>mod_bearing_checked := True\<rparr>))
   \<and> mod_bearings (font_info
        (set_mod_bearing (set_darken_opt (s0\<lparr>darken_opt := True\<rparr>)\<lparr>mod_bearing_checked := True\<rparr>)))"
proof -
  have r: "run env0 [DarkenToggled] (init fi0 (Some ''/usr/bin/fontforge'') [])
     = Inr (set_darken_opt (s0\<lparr>darken_opt := True\<rparr>))"
    by (simp add: s0_def init_def)
  have st: "step env0 ModBearingToggled (set_darken_opt (s0\<lparr>darken_opt := True\<rparr>))
     = Inr (set_mod_bearing (set_darken_opt (s0\<lparr>darken_opt := True\<rparr>)\<lparr>mod_bearing_checked := True\<rparr>))"
    by (simp add: s0_def init_def set_darken_opt_def set_darken_amount_def)
  show ?thesis
    using mod_bearings_set_only_while_darkening[OF r st] r st
    by (simp add: s0_def init_def set_darken_opt_def set_darken_amount_def set_mod_bearing_def)
qed

text \<open>
  C3 as stated fails: check Darken Font, check Modify Bearings, uncheck Darken Font. Then
  darkening is disabled (the weight to add is 0) and \<^verbatim>\<open>mod_bearings\<close> is still true.
\<close>

theorem mod_bearings_kept_counterexample:
  "map_sum id (\<lambda>s. (darken_opt s, mod_bearings (font_info s), add_weight (font_info s)))
     (run env0 [DarkenToggled, ModBearingToggled, DarkenToggled] s0)
   = Inr (False, True, 0)"
  by (simp add: s0_def init_def fi0_def set_darken_opt_def set_darken_amount_def set_mod_bearing_def)

section \<open>The Generate button and the process\<close>

text \<open>The button is enabled only with a family name typed and files loaded.\<close>

lemma step_gen_btn:
  assumes "step e ev s = Inr s'"
    and "gen_ttf_btn s \<longrightarrow> new_fnt_name s \<noteq> [] \<and> truthy (font_files s)"
  shows "gen_ttf_btn s' \<longrightarrow> new_fnt_name s' \<noteq> [] \<and> truthy (font_files s')"
proof (cases ev)
  case (LoadFontsClicked f_f)
  then show ?thesis
    using assms by (auto simp: load_fonts_def Let_def split: prod.splits if_splits)
next
  case (GenTtfClicked p d)
  then show ?thesis
    using assms by (auto dest: gen_ttf_widgets split: if_splits)
qed (use assms in \<open>auto simp: handler_defs Let_def split: if_splits sum.splits\<close>)

lemma run_gen_btn:
  assumes "run e evs (init fi found a) = Inr s"
  shows "gen_ttf_btn s \<longrightarrow> new_fnt_name s \<noteq> [] \<and> truthy (font_files s)"
proof (rule run_invariant[where
      P = "\<lambda>s. gen_ttf_btn s \<longrightarrow> new_fnt_name s \<noteq> [] \<and> truthy (font_files s)", OF _ _ assms])
  show "gen_ttf_btn (init fi found a) \<longrightarrow>
        new_fnt_name (init fi found a) \<noteq> [] \<and> truthy (font_files (init fi found a))"
    by (simp add: init_def Let_def set_ff_path_def)
qed (rule step_gen_btn)

lemma start_busy: "proc_state q \<noteq> NotRunning \<Longrightarrow> start program arguments q = q"
  by (simp add: start_def)

text \<open>
  C2 (as the code has it). When the running child process exits, \<^verbatim>\<open>manage_proc\<close> sets
  the progress bar to the range 0 to 100 and the value 100 and changes nothing else,
  whatever the exit code and the exit status are: the handler takes no argument of the
  signal and reads no exit code, and the window keeps no Succeeded or Failed state.
\<close>

theorem manage_proc_ignores_exit_code:
  assumes "proc_state (cli_process s) = Running"
  shows "step e (ProcFinished exit_code status) s =
           Inr (s\<lparr>cli_process := (cli_process s)\<lparr>proc_state := NotRunning\<rparr>,
                  prog_bar := \<lparr>pb_minimum = 0, pb_maximum = 100, pb_value = 100\<rparr>\<rparr>)"
  using assms
  by (cases "prog_bar s") (simp add: manage_proc_def set_proc_state_def setRange_def setValue_def Let_def)


theorem manage_proc_ignores_exit_code_witness:
  "proc_state (cli_process (set_proc_state Running s0)) = Running
   \<and> map_sum id (\<lambda>s. (proc_state (cli_process s), prog_bar s))
        (step env0 (ProcFinished 2 NormalExit) (set_proc_state Running s0))
      = Inr (NotRunning, \<lparr>pb_minimum = 0, pb_maximum = 100, pb_value = 100\<rparr>)"
proof -
  have h: "proc_state (cli_process (set_proc_state Running s0)) = Running"
    by (simp add: set_proc_state_def)
  show ?thesis
    using manage_proc_ignores_exit_code[OF h, of env0 2 NormalExit] h
    by (simp add: set_proc_state_def)
qed

text \<open>A session: a name is typed, a file loaded, the fonts generated, the process running.\<close>

lemma job0:
  "run env0 [TextEdited ''MyFont'', LoadFontsClicked [''/fonts/Foo-Regular.ttf''],
             GenTtfClicked [] ''/out'', ProcStarted] s0
   = Inr (s0\<lparr>fnt_sty_combo_list :=
               [\<lparr>cur_index = 1, cmb_enabled = True\<rparr>, \<lparr>cur_index = 0, cmb_enabled = False\<rparr>,
                \<lparr>cur_index = 0, cmb_enabled = False\<rparr>, \<lparr>cur_index = 0, cmb_enabled = False\<rparr>],
             fnt_file_name_list :=
               [''Foo-Regular.ttf'', ''Load font file...'', ''Load font file...'',
                ''Load font file...''],
             font_files := Some [''/fonts/Foo-Regular.ttf''],
             font_info := (font_info s0)\<lparr>font_name := ''MyFont'', out_dir := Some ''/out'',
                            font_file_reg := Some ''/fonts/Foo-Regular.ttf''\<rparr>,
             cli_process := \<lparr>proc_state = Running,
                             proc_command = Some (''/usr/bin/fontforge'', [])\<rparr>,
             new_fnt_name := ''MyFont'', gen_ttf_btn := True,
             prog_bar := \<lparr>pb_minimum = 0, pb_maximum = 0, pb_value = - 1\<rparr>\<rparr>)"
  by (simp add: s0_def init_def fi0_def env0_def set_family_name_def load_fonts_def
      select_style_def Let_def normpath_def norm_step_def path_split_def rfind_def
      rstrip_sep_def lower_def lower_char_def gen_ttf_def assign_and_start_def start_def
      manage_proc_def setRange_def setValue_def set_proc_state_def SEL_REGULAR_def SEL_BOLDITALIC_def SEL_BOLD_def SEL_ITALIC_def
      SEL_NONE_def numeral_eq_Suc)

lemma run_append:
  "run e (evs @ evs') s = (case run e evs s of Inl err \<Rightarrow> Inl err | Inr s' \<Rightarrow> run e evs' s')"
  by (induction evs arbitrary: s) (auto split: sum.splits)


text \<open>
  C2 as stated fails: a job whose process exits with code 2 leaves the window in the same
  state as one whose process exits with code 0, the progress bar at 100 of 100.
\<close>

theorem exit_code_not_read_counterexample:
  "run env0 [TextEdited ''MyFont'', LoadFontsClicked [''/fonts/Foo-Regular.ttf''],
             GenTtfClicked [] ''/out'', ProcStarted, ProcFinished 2 NormalExit] s0
   = run env0 [TextEdited ''MyFont'', LoadFontsClicked [''/fonts/Foo-Regular.ttf''],
               GenTtfClicked [] ''/out'', ProcStarted, ProcFinished 0 NormalExit] s0
   \<and> map_sum id (\<lambda>s. (proc_state (cli_process s), prog_bar s))
        (run env0 [TextEdited ''MyFont'', LoadFontsClicked [''/fonts/Foo-Regular.ttf''],
                   GenTtfClicked [] ''/out'', ProcStarted, ProcFinished 2 NormalExit] s0)
      = Inr (NotRunning, \<lparr>pb_minimum = 0, pb_maximum = 100, pb_value = 100\<rparr>)"
proof -
  have "run env0 ([TextEdited ''MyFont'', LoadFontsClicked [''/fonts/Foo-Regular.ttf''],
             GenTtfClicked [] ''/out'', ProcStarted] @ [ProcFinished c NormalExit]) s0
        = Inr (s0\<lparr>fnt_sty_combo_list :=
               [\<lparr>cur_index = 1, cmb_enabled = True\<rparr>, \<lparr>cur_index = 0, cmb_enabled = False\<rparr>,
                \<lparr>cur_index = 0, cmb_enabled = False\<rparr>, \<lparr>cur_index = 0, cmb_enabled = False\<rparr>],
             fnt_file_name_list :=
               [''Foo-Regular.ttf'', ''Load font file...'', ''Load font file...'',
                ''Load font file...''],
             font_files := Some [''/fonts/Foo-Regular.ttf''],
             font_info := (font_info s0)\<lparr>font_name := ''MyFont'', out_dir := Some ''/out'',
                            font_file_reg := Some ''/fonts/Foo-Regular.ttf''\<rparr>,
             cli_process := \<lparr>proc_state = NotRunning,
                             proc_command = Some (''/usr/bin/fontforge'', [])\<rparr>,
             new_fnt_name := ''MyFont'', gen_ttf_btn := True,
             prog_bar := \<lparr>pb_minimum = 0, pb_maximum = 100, pb_value = 100\<rparr>\<rparr>)" for c
    by (simp only: run_append job0)
       (simp add: manage_proc_def set_proc_state_def setRange_def setValue_def)
  from this[of 2] this[of 0] show ?thesis by simp
qed

section \<open>The path of the executable\<close>

lemma gen_ttf_ff_path:
  "gen_ttf e p d s = Inr s' \<Longrightarrow>
   ff_path s' = (if truthy (ff_path s) \<or> p = [] then ff_path s else Some (normpath p))"
  by (auto simp: gen_ttf_def assign_and_start_def Let_def set_ff_path_def split: if_splits option.splits)

lemma step_ff_path:
  "step e ev s = Inr s' \<Longrightarrow>
   ff_path s' = (case ev of
                   GenTtfClicked p d \<Rightarrow>
                     (if gen_ttf_btn s \<and> \<not> truthy (ff_path s) \<and> p \<noteq> [] then Some (normpath p)
                      else ff_path s)
                 | _ \<Rightarrow> ff_path s)"
  by (cases ev)
     (auto simp: handler_defs load_fonts_keeps Let_def dest: gen_ttf_ff_path
        split: if_splits sum.splits)

lemma step_path_searches: "step e ev s = Inr s' \<Longrightarrow> path_searches s' = path_searches s"
  by (cases ev)
     (auto simp: handler_defs load_fonts_keeps Let_def dest: gen_ttf_widgets
        split: if_splits sum.splits)

lemma run_path_searches:
  assumes "run e evs (init fi found a) = Inr s"
  shows "path_searches s = 1"
proof (rule run_invariant[where P = "\<lambda>s. path_searches s = 1", OF _ _ assms])
  show "path_searches (init fi found a) = 1"
    by (simp add: init_def Let_def set_ff_path_def)
qed (simp add: step_path_searches)

text \<open>
  C9. The search path is searched once, when the window is created: in any session
  \<^verbatim>\<open>helper.which\<close> has been called once. What it found is kept as \<^verbatim>\<open>ff_path\<close>. When it
  found nothing, the path the user supplies, at start or at a later click on Generate, is
  stored (normalised by \<^verbatim>\<open>os.path.normpath\<close>) whatever it is, with no check that it can
  be executed; and once \<^verbatim>\<open>ff_path\<close> is set, no event of the session changes it.
\<close>

theorem ff_path_located_once:
  assumes "run e evs (init fi found a) = Inr s" and "step e ev s = Inr s'"
  shows "(truthy found \<longrightarrow> ff_path (init fi found a) = found)
         \<and> (\<not> truthy found \<and> a \<noteq> []
              \<longrightarrow> ff_path (init fi found a) = Some (normpath a)
                  \<and> truthy (ff_path (init fi found a)))
         \<and> path_searches s' = 1
         \<and> (truthy (ff_path s) \<longrightarrow> ff_path s' = ff_path s)
         \<and> (\<not> truthy (ff_path s) \<and> gen_ttf_btn s \<and> p \<noteq> [] \<and> ev = GenTtfClicked p d
              \<longrightarrow> ff_path s' = Some (normpath p) \<and> truthy (ff_path s'))"
proof -
  have 1: "truthy found \<longrightarrow> ff_path (init fi found a) = found"
    by (simp add: init_def Let_def)
  have 2: "\<not> truthy found \<and> a \<noteq> []
              \<longrightarrow> ff_path (init fi found a) = Some (normpath a)
                  \<and> truthy (ff_path (init fi found a))"
    by (simp add: init_def Let_def set_ff_path_def normpath_nonempty)
  have 3: "path_searches s' = 1"
    using run_path_searches[OF assms(1)] step_path_searches[OF assms(2)] by simp
  have 4: "truthy (ff_path s) \<longrightarrow> ff_path s' = ff_path s"
    using step_ff_path[OF assms(2)] by (cases ev) auto
  have 5: "\<not> truthy (ff_path s) \<and> gen_ttf_btn s \<and> p \<noteq> [] \<and> ev = GenTtfClicked p d
              \<longrightarrow> ff_path s' = Some (normpath p) \<and> truthy (ff_path s')"
    using step_ff_path[OF assms(2)] by (auto simp: normpath_nonempty)
  from 1 2 3 4 5 show ?thesis by blast
qed

theorem ff_path_located_once_witness:
  "run env0 [] (init fi0 None ''/opt//fontforge/bin/fontforge'')
     = Inr (init fi0 None ''/opt//fontforge/bin/fontforge'')
   \<and> step env0 DarkenToggled (init fi0 None ''/opt//fontforge/bin/fontforge'')
     = Inr (set_darken_opt ((init fi0 None ''/opt//fontforge/bin/fontforge'')\<lparr>darken_opt := True\<rparr>))
   \<and> ff_path (init fi0 None ''/opt//fontforge/bin/fontforge'')
     = Some ''/opt/fontforge/bin/fontforge''
   \<and> ff_path (set_darken_opt ((init fi0 None ''/opt//fontforge/bin/fontforge'')\<lparr>darken_opt := True\<rparr>))
     = Some ''/opt/fontforge/bin/fontforge''
   \<and> path_searches
       (set_darken_opt ((init fi0 None ''/opt//fontforge/bin/fontforge'')\<lparr>darken_opt := True\<rparr>)) = 1"
proof -
  have r: "run env0 [] (init fi0 None ''/opt//fontforge/bin/fontforge'')
     = Inr (init fi0 None ''/opt//fontforge/bin/fontforge'')"
    by simp
  have st: "step env0 DarkenToggled (init fi0 None ''/opt//fontforge/bin/fontforge'')
     = Inr (set_darken_opt ((init fi0 None ''/opt//fontforge/bin/fontforge'')\<lparr>darken_opt := True\<rparr>))"
    by (simp add: init_def Let_def set_ff_path_def)
  have n: "normpath ''/opt//fontforge/bin/fontforge'' = ''/opt/fontforge/bin/fontforge''"
    by (simp add: normpath_def norm_step_def)
  have t: "\<not> truthy (None :: string option) \<and> ''/opt//fontforge/bin/fontforge'' \<noteq> []"
    by simp
  show ?thesis
    using ff_path_located_once[OF r st, of "[]" "[]"] r st n t by simp
qed

section \<open>The files handed to the command builder\<close>

lemma assign_loop_last:
  "font_file_reg (assign_loop fs cs fi) =
     (case filter (\<lambda>(f, c). cur_index c = SEL_REGULAR) (zip fs cs) of
        [] \<Rightarrow> font_file_reg fi | x # xs \<Rightarrow> Some (fst (last (x # xs))))
   \<and> font_file_it (assign_loop fs cs fi) =
     (case filter (\<lambda>(f, c). cur_index c = SEL_ITALIC) (zip fs cs) of
        [] \<Rightarrow> font_file_it fi | x # xs \<Rightarrow> Some (fst (last (x # xs))))
   \<and> font_file_bd (assign_loop fs cs fi) =
     (case filter (\<lambda>(f, c). cur_index c = SEL_BOLD) (zip fs cs) of
        [] \<Rightarrow> font_file_bd fi | x # xs \<Rightarrow> Some (fst (last (x # xs))))
   \<and> font_file_bi (assign_loop fs cs fi) =
     (case filter (\<lambda>(f, c). cur_index c = SEL_BOLDITALIC) (zip fs cs) of
        [] \<Rightarrow> font_file_bi fi | x # xs \<Rightarrow> Some (fst (last (x # xs))))"
proof (induction fs cs fi rule: assign_loop.induct)
  case (1 f fs c cs fi)
  then show ?case
    by (auto simp: SEL_REGULAR_def SEL_ITALIC_def SEL_BOLD_def SEL_BOLDITALIC_def
        split: list.splits)
qed simp_all

lemma gen_ttf_accepted:
  assumes "font_files s = Some fs" and "truthy (ff_path s)" and "normpath d \<noteq> ''.''"
  shows "gen_ttf e p d s =
           Inr (s\<lparr>log_win := [],
                  font_info := assign_loop fs (fnt_sty_combo_list s)
                                 ((font_info s)\<lparr>out_dir := Some (normpath d)\<rparr>),
                  cli_process := start (the (ff_path s))
                      (gen_cli_command e (assign_loop fs (fnt_sty_combo_list s)
                                 ((font_info s)\<lparr>out_dir := Some (normpath d)\<rparr>)))
                      (cli_process s)\<rparr>)"
  using assms by (simp add: gen_ttf_def assign_and_start_def Let_def normpath_nonempty)


text \<open>
  C5 (as the code has it). \<^verbatim>\<open>gen_ttf\<close> accepts a request without checking that the
  styles selected for the loaded files differ. With the button enabled, the executable
  located and a directory chosen, it starts the process, and for each style it hands to
  the command builder the last of the loaded files (among those that have a combo box) for
  which that style is selected, or the file the style had before when there is none.
\<close>

theorem gen_ttf_last_file_of_a_style:
  assumes "run e evs (init fi found a) = Inr s" and "gen_ttf_btn s"
    and "truthy (ff_path s)" and "normpath d \<noteq> ''.''"
  shows "\<exists>s' fs. step e (GenTtfClicked p d) s = Inr s' \<and> font_files s = Some fs
           \<and> cli_process s' = start (the (ff_path s)) (gen_cli_command e (font_info s'))
                                 (cli_process s)
           \<and> (let last_of = (\<lambda>k old.
                     case filter (\<lambda>(f, c). cur_index c = k) (zip fs (fnt_sty_combo_list s)) of
                       [] \<Rightarrow> old
                     | x # xs \<Rightarrow> Some (fst (last (x # xs))))
               in font_file_reg (font_info s') = last_of SEL_REGULAR (font_file_reg (font_info s))
                \<and> font_file_it (font_info s') = last_of SEL_ITALIC (font_file_it (font_info s))
                \<and> font_file_bd (font_info s') = last_of SEL_BOLD (font_file_bd (font_info s))
                \<and> font_file_bi (font_info s')
                    = last_of SEL_BOLDITALIC (font_file_bi (font_info s)))"
proof -
  obtain fs where fs: "font_files s = Some fs"
    using run_gen_btn[OF assms(1)] assms(2) by (cases "font_files s") auto
  let ?fi = "assign_loop fs (fnt_sty_combo_list s) ((font_info s)\<lparr>out_dir := Some (normpath d)\<rparr>)"
  have g: "step e (GenTtfClicked p d) s =
        Inr (s\<lparr>log_win := [], font_info := ?fi,
               cli_process := start (the (ff_path s)) (gen_cli_command e ?fi) (cli_process s)\<rparr>)"
    using gen_ttf_accepted[OF fs assms(3,4)] assms(2) by simp
  have l: "font_file_reg (font_info s) = font_file_reg ((font_info s)\<lparr>out_dir := Some (normpath d)\<rparr>)"
    "font_file_it (font_info s) = font_file_it ((font_info s)\<lparr>out_dir := Some (normpath d)\<rparr>)"
    "font_file_bd (font_info s) = font_file_bd ((font_info s)\<lparr>out_dir := Some (normpath d)\<rparr>)"
    "font_file_bi (font_info s) = font_file_bi ((font_info s)\<lparr>out_dir := Some (normpath d)\<rparr>)"
    by simp_all
  show ?thesis
    apply (rule exI[of _ "s\<lparr>log_win := [], font_info := ?fi,
               cli_process := start (the (ff_path s)) (gen_cli_command e ?fi) (cli_process s)\<rparr>"])
    apply (rule exI[of _ fs])
    apply (simp only: g fs Let_def l)
    apply (simp add: assign_loop_last del: step.simps)
    done
qed

text \<open>A session: a name is typed and two files are loaded that both have \<open>bold\<close> in their name.\<close>

lemma job1:
  "run env0 [TextEdited ''MyFont'', LoadFontsClicked [''/fonts/A-Bold.ttf'', ''/fonts/B-Bold.ttf'']] s0
   = Inr (s0\<lparr>fnt_sty_combo_list :=
               [\<lparr>cur_index = 3, cmb_enabled = True\<rparr>, \<lparr>cur_index = 3, cmb_enabled = True\<rparr>,
                \<lparr>cur_index = 0, cmb_enabled = False\<rparr>, \<lparr>cur_index = 0, cmb_enabled = False\<rparr>],
             fnt_file_name_list :=
               [''A-Bold.ttf'', ''B-Bold.ttf'', ''Load font file...'', ''Load font file...''],
             font_files := Some [''/fonts/A-Bold.ttf'', ''/fonts/B-Bold.ttf''],
             font_info := (font_info s0)\<lparr>font_name := ''MyFont''\<rparr>,
             new_fnt_name := ''MyFont'', gen_ttf_btn := True\<rparr>)"
  by (simp add: s0_def init_def fi0_def env0_def set_family_name_def load_fonts_def
      select_style_def Let_def normpath_def norm_step_def path_split_def rfind_def
      rstrip_sep_def lower_def lower_char_def SEL_REGULAR_def SEL_BOLDITALIC_def SEL_BOLD_def
      SEL_ITALIC_def SEL_NONE_def numeral_eq_Suc)

theorem gen_ttf_last_file_of_a_style_witness:
  "\<exists>s s'. run env0 [TextEdited ''MyFont'',
                    LoadFontsClicked [''/fonts/A-Bold.ttf'', ''/fonts/B-Bold.ttf'']]
             (init fi0 (Some ''/usr/bin/fontforge'') []) = Inr s
        \<and> gen_ttf_btn s \<and> truthy (ff_path s) \<and> normpath ''/out'' \<noteq> ''.''
        \<and> step env0 (GenTtfClicked [] ''/out'') s = Inr s'
        \<and> font_file_bd (font_info s') = Some ''/fonts/B-Bold.ttf''
        \<and> font_file_reg (font_info s') = None"
proof -
  let ?s = "s0\<lparr>fnt_sty_combo_list :=
               [\<lparr>cur_index = 3, cmb_enabled = True\<rparr>, \<lparr>cur_index = 3, cmb_enabled = True\<rparr>,
                \<lparr>cur_index = 0, cmb_enabled = False\<rparr>, \<lparr>cur_index = 0, cmb_enabled = False\<rparr>],
             fnt_file_name_list :=
               [''A-Bold.ttf'', ''B-Bold.ttf'', ''Load font file...'', ''Load font file...''],
             font_files := Some [''/fonts/A-Bold.ttf'', ''/fonts/B-Bold.ttf''],
             font_info := (font_info s0)\<lparr>font_name := ''MyFont''\<rparr>,
             new_fnt_name := ''MyFont'', gen_ttf_btn := True\<rparr>"
  have r: "run env0 [TextEdited ''MyFont'',
                    LoadFontsClicked [''/fonts/A-Bold.ttf'', ''/fonts/B-Bold.ttf'']]
             (init fi0 (Some ''/usr/bin/fontforge'') []) = Inr ?s"
    using job1 by (simp add: s0_def)
  have b: "gen_ttf_btn ?s" by simp
  have t: "truthy (ff_path ?s)" by (simp add: s0_def init_def)
  have n: "normpath ''/out'' \<noteq> ''.''" by (simp add: normpath_def norm_step_def)
  from gen_ttf_last_file_of_a_style[OF r b t n, of "[]"]
  obtain s' where "step env0 (GenTtfClicked [] ''/out'') ?s = Inr s'"
    and "font_file_bd (font_info s') = Some ''/fonts/B-Bold.ttf''"
    and "font_file_reg (font_info s') = None"
    by (auto simp: Let_def SEL_REGULAR_def SEL_BOLD_def s0_def init_def fi0_def)
  with r b t n show ?thesis by blast
qed

text \<open>
  C5 as stated fails: with two loaded files named as bold ones, both entries have the
  style Bold when the request is accepted and the process started; the second file is
  the one handed on.
\<close>

theorem two_files_of_one_style_counterexample:
  "map_sum id (\<lambda>s. (map cur_index (fnt_sty_combo_list s), proc_state (cli_process s),
                    font_file_bd (font_info s)))
     (run env0 [TextEdited ''MyFont'',
                LoadFontsClicked [''/fonts/A-Bold.ttf'', ''/fonts/B-Bold.ttf''],
                GenTtfClicked [] ''/out''] s0)
   = Inr ([SEL_BOLD, SEL_BOLD, SEL_NONE, SEL_NONE], Starting, Some ''/fonts/B-Bold.ttf'')"
proof -
  have "run env0 ([TextEdited ''MyFont'',
                LoadFontsClicked [''/fonts/A-Bold.ttf'', ''/fonts/B-Bold.ttf'']]
                @ [GenTtfClicked [] ''/out'']) s0
        = Inr (s0\<lparr>fnt_sty_combo_list :=
               [\<lparr>cur_index = 3, cmb_enabled = True\<rparr>, \<lparr>cur_index = 3, cmb_enabled = True\<rparr>,
                \<lparr>cur_index = 0, cmb_enabled = False\<rparr>, \<lparr>cur_index = 0, cmb_enabled = False\<rparr>],
             fnt_file_name_list :=
               [''A-Bold.ttf'', ''B-Bold.ttf'', ''Load font file...'', ''Load font file...''],
             font_files := Some [''/fonts/A-Bold.ttf'', ''/fonts/B-Bold.ttf''],
             font_info := (font_info s0)\<lparr>font_name := ''MyFont'', out_dir := Some ''/out'',
                            font_file_bd := Some ''/fonts/B-Bold.ttf''\<rparr>,
             cli_process := \<lparr>proc_state = Starting,
                             proc_command = Some (''/usr/bin/fontforge'', [])\<rparr>,
             new_fnt_name := ''MyFont'', gen_ttf_btn := True\<rparr>)"
    apply (simp only: run_append job1)
    apply (simp add: s0_def init_def fi0_def env0_def gen_ttf_def assign_and_start_def Let_def normpath_def
        norm_step_def start_def SEL_REGULAR_def SEL_BOLDITALIC_def SEL_BOLD_def SEL_ITALIC_def)
    done
  then show ?thesis by (simp add: SEL_BOLD_def SEL_NONE_def s0_def init_def)
qed

section \<open>When a request is accepted\<close>

text \<open>
  C6 (as the code has it). A click on Generate is taken only while the button is enabled;
  otherwise nothing happens. In any session the button is enabled only when a family name
  is typed and files are loaded, and after an edit of the family name it is enabled exactly
  when the name is not empty, passes \<^verbatim>\<open>helper.valid_filename\<close> and files are loaded. No
  handler looks at the styles of the loaded files before a request is accepted.
\<close>

theorem gen_ttf_btn_enabled:
  assumes "run e evs (init fi found a) = Inr s"
  shows "(gen_ttf_btn s \<longrightarrow> new_fnt_name s \<noteq> [] \<and> truthy (font_files s))
         \<and> (\<not> gen_ttf_btn s \<longrightarrow> step e (GenTtfClicked p d) s = Inr s)
         \<and> (\<exists>s'. step e (TextEdited name) s = Inr s'
                \<and> gen_ttf_btn s' = (name \<noteq> [] \<and> valid_filename e name \<and> truthy (font_files s)))"
proof -
  have inv: "gen_ttf_btn s \<longrightarrow> new_fnt_name s \<noteq> [] \<and> truthy (font_files s)"
    using run_gen_btn[OF assms] .
  have 2: "\<not> gen_ttf_btn s \<longrightarrow> step e (GenTtfClicked p d) s = Inr s"
    by simp
  have 3: "gen_ttf_btn (set_family_name e name (s\<lparr>new_fnt_name := name\<rparr>))
             = (name \<noteq> [] \<and> valid_filename e name \<and> truthy (font_files s))"
    using inv by (auto simp: set_family_name_def Let_def)
  from inv 2 3 show ?thesis by simp
qed

text \<open>A session: one file is loaded whose name has none of the tokens in it.\<close>

lemma job2:
  "run env0 [LoadFontsClicked [''/fonts/Foo.ttf'']] s0
   = Inr (s0\<lparr>fnt_sty_combo_list :=
               [\<lparr>cur_index = 0, cmb_enabled = True\<rparr>, \<lparr>cur_index = 0, cmb_enabled = False\<rparr>,
                \<lparr>cur_index = 0, cmb_enabled = False\<rparr>, \<lparr>cur_index = 0, cmb_enabled = False\<rparr>],
             fnt_file_name_list :=
               [''Foo.ttf'', ''Load font file...'', ''Load font file...'', ''Load font file...''],
             font_files := Some [''/fonts/Foo.ttf'']\<rparr>)"
  by (simp add: s0_def init_def fi0_def env0_def load_fonts_def
      select_style_def Let_def normpath_def norm_step_def path_split_def rfind_def
      rstrip_sep_def lower_def lower_char_def SEL_REGULAR_def SEL_BOLDITALIC_def SEL_BOLD_def
      SEL_ITALIC_def SEL_NONE_def numeral_eq_Suc)

theorem gen_ttf_btn_enabled_witness:
  "\<exists>s s'. run env0 [LoadFontsClicked [''/fonts/Foo.ttf'']]
             (init fi0 (Some ''/usr/bin/fontforge'') []) = Inr s
        \<and> \<not> gen_ttf_btn s
        \<and> step env0 (GenTtfClicked [] ''/out'') s = Inr s
        \<and> step env0 (TextEdited ''My/Font'') s = Inr s' \<and> \<not> gen_ttf_btn s'"
proof -
  obtain s where r: "run env0 [LoadFontsClicked [''/fonts/Foo.ttf'']]
             (init fi0 (Some ''/usr/bin/fontforge'') []) = Inr s"
    and b: "\<not> gen_ttf_btn s"
    using job2 by (simp add: s0_def init_def)
  from gen_ttf_btn_enabled[OF r, of "[]" "''/out''" "''My/Font''"] b
  obtain s' where "step env0 (GenTtfClicked [] ''/out'') s = Inr s"
    and "step env0 (TextEdited ''My/Font'') s = Inr s'" and "\<not> gen_ttf_btn s'"
    by (auto simp: env0_def)
  with r b show ?thesis by blast
qed

text \<open>
  C6 as stated fails: with a valid name typed and one file loaded whose style was not
  recognised, no entry has a style, the request is accepted and the process started, with
  no file handed to the command builder.
\<close>

theorem no_style_assigned_counterexample:
  "map_sum id (\<lambda>s. (map cur_index (fnt_sty_combo_list s), proc_state (cli_process s),
                    [font_file_reg (font_info s), font_file_it (font_info s),
                     font_file_bd (font_info s), font_file_bi (font_info s)]))
     (run env0 [LoadFontsClicked [''/fonts/Foo.ttf''], TextEdited ''MyFont'',
                GenTtfClicked [] ''/out''] s0)
   = Inr ([SEL_NONE, SEL_NONE, SEL_NONE, SEL_NONE], Starting, [None, None, None, None])"
proof -
  have "run env0 ([LoadFontsClicked [''/fonts/Foo.ttf'']]
                @ [TextEdited ''MyFont'', GenTtfClicked [] ''/out'']) s0
        = Inr (s0\<lparr>fnt_sty_combo_list :=
               [\<lparr>cur_index = 0, cmb_enabled = True\<rparr>, \<lparr>cur_index = 0, cmb_enabled = False\<rparr>,
                \<lparr>cur_index = 0, cmb_enabled = False\<rparr>, \<lparr>cur_index = 0, cmb_enabled = False\<rparr>],
             fnt_file_name_list :=
               [''Foo.ttf'', ''Load font file...'', ''Load font file...'', ''Load font file...''],
             font_files := Some [''/fonts/Foo.ttf''],
             font_info := (font_info s0)\<lparr>font_name := ''MyFont'', out_dir := Some ''/out''\<rparr>,
             cli_process := \<lparr>proc_state = Starting,
                             proc_command = Some (''/usr/bin/fontforge'', [])\<rparr>,
             new_fnt_name := ''MyFont'', gen_ttf_btn := True\<rparr>)"
    apply (simp only: run_append job2)
    apply (simp add: s0_def init_def fi0_def env0_def set_family_name_def gen_ttf_def assign_and_start_def Let_def
        normpath_def norm_step_def start_def SEL_REGULAR_def SEL_BOLDITALIC_def SEL_BOLD_def
        SEL_ITALIC_def)
    done
  then show ?thesis by (simp add: SEL_NONE_def s0_def init_def fi0_def)
qed

section \<open>A request while a job is active\<close>

text \<open>A process is active only when the executable has been located.\<close>

lemma step_active_ff_path:
  assumes "step e ev s = Inr s'"
    and "proc_state (cli_process s) \<noteq> NotRunning \<longrightarrow> truthy (ff_path s)"
  shows "proc_state (cli_process s') \<noteq> NotRunning \<longrightarrow> truthy (ff_path s')"
proof (cases ev)
  case (GenTtfClicked p d)
  then show ?thesis
    using assms
    by (auto simp: gen_ttf_def assign_and_start_def Let_def set_ff_path_def start_def
        normpath_nonempty split: if_splits option.splits)
qed (use assms in \<open>auto simp: handler_defs load_fonts_keeps Let_def split: if_splits sum.splits\<close>)

lemma run_active_ff_path:
  assumes "run e evs (init fi found a) = Inr s"
  shows "proc_state (cli_process s) \<noteq> NotRunning \<longrightarrow> truthy (ff_path s)"
proof (rule run_invariant[where
      P = "\<lambda>s. proc_state (cli_process s) \<noteq> NotRunning \<longrightarrow> truthy (ff_path s)", OF _ _ assms])
  show "proc_state (cli_process (init fi found a)) \<noteq> NotRunning
        \<longrightarrow> truthy (ff_path (init fi found a))"
    by (simp add: init_def Let_def set_ff_path_def)
qed (rule step_active_ff_path)

text \<open>
  C8 (as the code has it). \<^verbatim>\<open>gen_ttf\<close> does not look at the state of the process. In any
  session, a click on Generate while a process is starting or running raises nothing and
  leaves \<^verbatim>\<open>cli_process\<close> as it is, since \<^verbatim>\<open>QProcess.start\<close> does nothing on a process
  that is active: the request is dropped, not queued, and one process at most is active.
  With the button disabled the click changes nothing. With the button enabled it clears the
  log window; when the save dialog is cancelled it changes nothing else, and when a
  directory is chosen it stores the directory and, for each style, the last loaded file
  for which that style is selected.
\<close>

theorem gen_ttf_while_running:
  assumes "run e evs (init fi found a) = Inr s" and "proc_state (cli_process s) \<noteq> NotRunning"
  shows "\<exists>s'. step e (GenTtfClicked p d) s = Inr s' \<and> cli_process s' = cli_process s
           \<and> (\<not> gen_ttf_btn s \<longrightarrow> s' = s)
           \<and> (gen_ttf_btn s \<longrightarrow>
                log_win s' = []
                \<and> (normpath d = ''.'' \<longrightarrow> font_info s' = font_info s)
                \<and> (normpath d \<noteq> ''.'' \<longrightarrow>
                     out_dir (font_info s') = Some (normpath d)
                     \<and> (\<exists>fs. font_files s = Some fs
                          \<and> (let last_of = (\<lambda>k old.
                                 case filter (\<lambda>(f, c). cur_index c = k)
                                        (zip fs (fnt_sty_combo_list s)) of
                                   [] \<Rightarrow> old
                                 | x # xs \<Rightarrow> Some (fst (last (x # xs))))
                              in font_file_reg (font_info s')
                                   = last_of SEL_REGULAR (font_file_reg (font_info s))
                               \<and> font_file_it (font_info s')
                                   = last_of SEL_ITALIC (font_file_it (font_info s))
                               \<and> font_file_bd (font_info s')
                                   = last_of SEL_BOLD (font_file_bd (font_info s))
                               \<and> font_file_bi (font_info s')
                                   = last_of SEL_BOLDITALIC (font_file_bi (font_info s))))))"
proof (cases "gen_ttf_btn s")
  case False
  then show ?thesis by simp
next
  case True
  then obtain fs where fs: "font_files s = Some fs"
    using run_gen_btn[OF assms(1)] by (cases "font_files s") auto
  have t: "truthy (ff_path s)"
    using run_active_ff_path[OF assms(1)] assms(2) by simp
  show ?thesis
  proof (cases "normpath d = ''.''")
    case d: True
    have "gen_ttf e p d s = Inr (s\<lparr>log_win := []\<rparr>)"
      using t d by (simp add: gen_ttf_def Let_def)
    then show ?thesis using True d by simp
  next
    case d: False
    let ?fi = "assign_loop fs (fnt_sty_combo_list s) ((font_info s)\<lparr>out_dir := Some (normpath d)\<rparr>)"
    have g: "gen_ttf e p d s =
        Inr (s\<lparr>log_win := [], font_info := ?fi,
               cli_process := start (the (ff_path s)) (gen_cli_command e ?fi) (cli_process s)\<rparr>)"
      using gen_ttf_accepted[OF fs t d] .
    have l: "font_file_reg (font_info s) = font_file_reg ((font_info s)\<lparr>out_dir := Some (normpath d)\<rparr>)"
      "font_file_it (font_info s) = font_file_it ((font_info s)\<lparr>out_dir := Some (normpath d)\<rparr>)"
      "font_file_bd (font_info s) = font_file_bd ((font_info s)\<lparr>out_dir := Some (normpath d)\<rparr>)"
      "font_file_bi (font_info s) = font_file_bi ((font_info s)\<lparr>out_dir := Some (normpath d)\<rparr>)"
      by simp_all
    have o: "out_dir ?fi = Some (normpath d)"
      by (simp add: assign_loop_keeps)
    have c: "start (the (ff_path s)) (gen_cli_command e ?fi) (cli_process s) = cli_process s"
      using assms(2) by (rule start_busy)
    show ?thesis
      apply (rule exI[of _ "s\<lparr>log_win := [], font_info := ?fi,
               cli_process := start (the (ff_path s)) (gen_cli_command e ?fi) (cli_process s)\<rparr>"])
      apply (simp only: step.simps True if_True g c fs Let_def l)
      apply (simp add: assign_loop_last o d)
      done
  qed
qed


theorem gen_ttf_while_running_witness:
  "\<exists>s s'. run env0 [TextEdited ''MyFont'', LoadFontsClicked [''/fonts/Foo-Regular.ttf''],
             GenTtfClicked [] ''/out'', ProcStarted] (init fi0 (Some ''/usr/bin/fontforge'') [])
            = Inr s
        \<and> proc_state (cli_process s) = Running \<and> gen_ttf_btn s
        \<and> step env0 (GenTtfClicked [] ''/other'') s = Inr s'
        \<and> cli_process s' = cli_process s \<and> log_win s' = []
        \<and> out_dir (font_info s') = Some ''/other''"
proof -
  obtain s where s: "run env0 [TextEdited ''MyFont'', LoadFontsClicked [''/fonts/Foo-Regular.ttf''],
             GenTtfClicked [] ''/out'', ProcStarted] (init fi0 (Some ''/usr/bin/fontforge'') [])
            = Inr s" and r: "proc_state (cli_process s) = Running" and b: "gen_ttf_btn s"
    using job0 by (simp add: s0_def)
  from r have a: "proc_state (cli_process s) \<noteq> NotRunning" by simp
  have n: "normpath ''/other'' = ''/other''" by (simp add: normpath_def norm_step_def)
  from gen_ttf_while_running[OF s a, of "[]" "''/other''"] b
  obtain s' where "step env0 (GenTtfClicked [] ''/other'') s = Inr s'"
    and "cli_process s' = cli_process s" and "log_win s' = []"
    and "out_dir (font_info s') = Some ''/other''"
    by (auto simp: n)
  with s r b show ?thesis by blast
qed

text \<open>A chunk of output is read while the process of that session is running.\<close>

lemma job0_read:
  "run env0 [TextEdited ''MyFont'', LoadFontsClicked [''/fonts/Foo-Regular.ttf''],
             GenTtfClicked [] ''/out'', ProcStarted, ReadyRead ''Loading fonts''] s0
   = Inr (s0\<lparr>fnt_sty_combo_list :=
               [\<lparr>cur_index = 1, cmb_enabled = True\<rparr>, \<lparr>cur_index = 0, cmb_enabled = False\<rparr>,
                \<lparr>cur_index = 0, cmb_enabled = False\<rparr>, \<lparr>cur_index = 0, cmb_enabled = False\<rparr>],
             fnt_file_name_list :=
               [''Foo-Regular.ttf'', ''Load font file...'', ''Load font file...'',
                ''Load font file...''],
             font_files := Some [''/fonts/Foo-Regular.ttf''],
             font_info := (font_info s0)\<lparr>font_name := ''MyFont'', out_dir := Some ''/out'',
                            font_file_reg := Some ''/fonts/Foo-Regular.ttf''\<rparr>,
             cli_process := \<lparr>proc_state = Running,
                             proc_command = Some (''/usr/bin/fontforge'', [])\<rparr>,
             new_fnt_name := ''MyFont'', gen_ttf_btn := True,
             prog_bar := \<lparr>pb_minimum = 0, pb_maximum = 0, pb_value = - 1\<rparr>,
             log_win := [''Loading fonts'']\<rparr>)"
proof -
  have "run env0 ([TextEdited ''MyFont'', LoadFontsClicked [''/fonts/Foo-Regular.ttf''],
                GenTtfClicked [] ''/out'', ProcStarted] @ [ReadyRead ''Loading fonts'']) s0
   = Inr (s0\<lparr>fnt_sty_combo_list :=
               [\<lparr>cur_index = 1, cmb_enabled = True\<rparr>, \<lparr>cur_index = 0, cmb_enabled = False\<rparr>,
                \<lparr>cur_index = 0, cmb_enabled = False\<rparr>, \<lparr>cur_index = 0, cmb_enabled = False\<rparr>],
             fnt_file_name_list :=
               [''Foo-Regular.ttf'', ''Load font file...'', ''Load font file...'',
                ''Load font file...''],
             font_files := Some [''/fonts/Foo-Regular.ttf''],
             font_info := (font_info s0)\<lparr>font_name := ''MyFont'', out_dir := Some ''/out'',
                            font_file_reg := Some ''/fonts/Foo-Regular.ttf''\<rparr>,
             cli_process := \<lparr>proc_state = Running,
                             proc_command = Some (''/usr/bin/fontforge'', [])\<rparr>,
             new_fnt_name := ''MyFont'', gen_ttf_btn := True,
             prog_bar := \<lparr>pb_minimum = 0, pb_maximum = 0, pb_value = - 1\<rparr>,
             log_win := [''Loading fonts'']\<rparr>)"
    by (simp only: run_append job0)
       (simp add: read_proc_output_def decode_def env0_def s0_def init_def)
  then show ?thesis by simp
qed

text \<open>
  C8 as stated fails: a second click on Generate while the first job is running does not
  fail. It clears the output logged so far and stores the newly chosen output directory.
\<close>

theorem gen_ttf_not_busy_counterexample:
  "map_sum id (\<lambda>s. (proc_state (cli_process s), log_win s, out_dir (font_info s)))
     (run env0 [TextEdited ''MyFont'', LoadFontsClicked [''/fonts/Foo-Regular.ttf''],
                GenTtfClicked [] ''/out'', ProcStarted, ReadyRead ''Loading fonts''] s0)
   = Inr (Running, [''Loading fonts''], Some ''/out'')
   \<and> map_sum id (\<lambda>s. (proc_state (cli_process s), log_win s, out_dir (font_info s)))
     (run env0 [TextEdited ''MyFont'', LoadFontsClicked [''/fonts/Foo-Regular.ttf''],
                GenTtfClicked [] ''/out'', ProcStarted, ReadyRead ''Loading fonts'',
                GenTtfClicked [] ''/other''] s0)
   = Inr (Running, [], Some ''/other'')"
proof -
  have 2: "run env0 ([TextEdited ''MyFont'', LoadFontsClicked [''/fonts/Foo-Regular.ttf''],
                GenTtfClicked [] ''/out'', ProcStarted, ReadyRead ''Loading fonts'']
                @ [GenTtfClicked [] ''/other'']) s0
      = Inr (s0\<lparr>fnt_sty_combo_list :=
               [\<lparr>cur_index = 1, cmb_enabled = True\<rparr>, \<lparr>cur_index = 0, cmb_enabled = False\<rparr>,
                \<lparr>cur_index = 0, cmb_enabled = False\<rparr>, \<lparr>cur_index = 0, cmb_enabled = False\<rparr>],
             fnt_file_name_list :=
               [''Foo-Regular.ttf'', ''Load font file...'', ''Load font file...'',
                ''Load font file...''],
             font_files := Some [''/fonts/Foo-Regular.ttf''],
             font_info := (font_info s0)\<lparr>font_name := ''MyFont'', out_dir := Some ''/other'',
                            font_file_reg := Some ''/fonts/Foo-Regular.ttf''\<rparr>,
             cli_process := \<lparr>proc_state = Running,
                             proc_command = Some (''/usr/bin/fontforge'', [])\<rparr>,
             new_fnt_name := ''MyFont'', gen_ttf_btn := True,
             prog_bar := \<lparr>pb_minimum = 0, pb_maximum = 0, pb_value = - 1\<rparr>,
             log_win := []\<rparr>)"
    apply (subst run_append)
    apply (simp only: job0_read)
    apply (simp add: s0_def init_def fi0_def env0_def gen_ttf_def assign_and_start_def Let_def
        normpath_def norm_step_def start_def SEL_REGULAR_def SEL_BOLDITALIC_def SEL_BOLD_def
        SEL_ITALIC_def setRange_def)
    done
  from job0_read 2 show ?thesis by (simp add: s0_def init_def fi0_def)
qed


section \<open>The output in the log window\<close>







section \<open>More than four files\<close>

lemma zip_take_length: "zip (take (length ys) xs) ys = zip xs ys"
  by (induction xs ys rule: list_induct2') auto

lemma load_fonts_first:
  assumes "length (fnt_sty_combo_list s) = n" and "length (fnt_file_name_list s) = n"
    and "n \<le> length f_f" and "0 < n"
  shows "fnt_file_name_list (load_fonts f_f s)
           = map (\<lambda>f. snd (path_split (normpath f))) (take n f_f)
         \<and> fnt_sty_combo_list (load_fonts f_f s)
           = map (\<lambda>f. select_style (snd (path_split (normpath f)))
                        \<lparr>cur_index = SEL_NONE, cmb_enabled = True\<rparr>) (take n f_f)
         \<and> font_files (load_fonts f_f s) = Some f_f"
proof -
  have ne: "f_f \<noteq> []" using assms(3,4) by auto
  have l: "length (fnt_sty_combo_list (load_fonts f_f s)) = n"
    "length (fnt_file_name_list (load_fonts f_f s)) = n"
    using load_fonts_widgets[of f_f s] assms(1,2) by auto
  have nth: "fnt_sty_combo_list (load_fonts f_f s) ! i =
           select_style (snd (path_split (normpath (f_f ! i))))
             \<lparr>cur_index = SEL_NONE, cmb_enabled = True\<rparr>
         \<and> fnt_file_name_list (load_fonts f_f s) ! i = snd (path_split (normpath (f_f ! i)))"
    if "i < n" for i
    using load_fonts_combo[of i f_f s] assms(1,2,3) that by simp
  have 1: "fnt_file_name_list (load_fonts f_f s)
           = map (\<lambda>f. snd (path_split (normpath f))) (take n f_f)"
    using l nth assms(3) by (auto simp: list_eq_iff_nth_eq)
  have 2: "fnt_sty_combo_list (load_fonts f_f s)
           = map (\<lambda>f. select_style (snd (path_split (normpath f)))
                        \<lparr>cur_index = SEL_NONE, cmb_enabled = True\<rparr>) (take n f_f)"
    using l nth assms(3) by (auto simp: list_eq_iff_nth_eq)
  have 3: "font_files (load_fonts f_f s) = Some f_f"
    using ne by (simp add: load_fonts_def Let_def split: prod.splits)
  from 1 2 3 show ?thesis by simp
qed

lemma gen_ttf_no_error:
  "font_files t = Some f_f \<Longrightarrow> \<exists>r. gen_ttf e p d t = Inr r"
  by (auto simp: gen_ttf_def assign_and_start_def Let_def set_ff_path_def)

text \<open>
  C10 (as the code has it). When more than four files are selected, \<^verbatim>\<open>load_fonts\<close>
  raises nothing; the four labels show the names of the first four files and the four
  combo boxes the styles selected from those names, so the files after the fourth get no
  label and no style. Later in the session, as long as these files are the loaded ones,
  \<^verbatim>\<open>gen_ttf\<close> raises nothing, and when the executable is located and a directory chosen it
  starts the process on a configuration in which each style has the last of the first four
  files for which that style is selected; a style selected for none of the four keeps the
  file it had before.
\<close>

theorem only_first_four_files:
  assumes "run e evs (init fi found a) = Inr s" and "4 < length f_f"
    and "run e evs' (load_fonts f_f s) = Inr t" and "font_files t = Some f_f"
  shows "fnt_file_name_list (load_fonts f_f s)
           = map (\<lambda>f. snd (path_split (normpath f))) (take 4 f_f)
         \<and> fnt_sty_combo_list (load_fonts f_f s)
           = map (\<lambda>f. select_style (snd (path_split (normpath f)))
                        \<lparr>cur_index = SEL_NONE, cmb_enabled = True\<rparr>) (take 4 f_f)
         \<and> (\<exists>r. gen_ttf e p d t = Inr r
              \<and> (truthy (ff_path t) \<and> normpath d \<noteq> ''.'' \<longrightarrow>
                   cli_process r
                     = start (the (ff_path t)) (gen_cli_command e (font_info r)) (cli_process t)
                   \<and> (let last_of = (\<lambda>k old.
                          case filter (\<lambda>(f, c). cur_index c = k)
                                 (zip (take 4 f_f) (fnt_sty_combo_list t)) of
                            [] \<Rightarrow> old
                          | x # xs \<Rightarrow> Some (fst (last (x # xs))))
                       in font_file_reg (font_info r)
                            = last_of SEL_REGULAR (font_file_reg (font_info t))
                        \<and> font_file_it (font_info r)
                            = last_of SEL_ITALIC (font_file_it (font_info t))
                        \<and> font_file_bd (font_info r)
                            = last_of SEL_BOLD (font_file_bd (font_info t))
                        \<and> font_file_bi (font_info r)
                            = last_of SEL_BOLDITALIC (font_file_bi (font_info t)))))"
proof -
  have ls: "length (fnt_sty_combo_list s) = 4" "length (fnt_file_name_list s) = 4"
    using run_widgets[OF assms(1)] by auto
  have 1: "fnt_file_name_list (load_fonts f_f s)
           = map (\<lambda>f. snd (path_split (normpath f))) (take 4 f_f)
         \<and> fnt_sty_combo_list (load_fonts f_f s)
           = map (\<lambda>f. select_style (snd (path_split (normpath f)))
                        \<lparr>cur_index = SEL_NONE, cmb_enabled = True\<rparr>) (take 4 f_f)"
    using load_fonts_first[OF ls, of f_f] assms(2) by simp
  have "run e (evs @ LoadFontsClicked f_f # evs') (init fi found a) = Inr t"
    using assms(1,3) by (simp add: run_append)
  then have lt: "length (fnt_sty_combo_list t) = 4"
    using run_widgets by blast
  have z: "zip (take 4 f_f) (fnt_sty_combo_list t) = zip f_f (fnt_sty_combo_list t)"
    using zip_take_length[of "fnt_sty_combo_list t" f_f] lt by simp
  show ?thesis
  proof (cases "truthy (ff_path t) \<and> normpath d \<noteq> ''.''")
    case False
    then show ?thesis
      using 1 gen_ttf_no_error[OF assms(4), of e p d] by auto
  next
    case True
    let ?fi = "assign_loop f_f (fnt_sty_combo_list t) ((font_info t)\<lparr>out_dir := Some (normpath d)\<rparr>)"
    have g: "gen_ttf e p d t =
        Inr (t\<lparr>log_win := [], font_info := ?fi,
               cli_process := start (the (ff_path t)) (gen_cli_command e ?fi) (cli_process t)\<rparr>)"
      using gen_ttf_accepted[OF assms(4)] True by simp
    have l: "font_file_reg (font_info t) = font_file_reg ((font_info t)\<lparr>out_dir := Some (normpath d)\<rparr>)"
      "font_file_it (font_info t) = font_file_it ((font_info t)\<lparr>out_dir := Some (normpath d)\<rparr>)"
      "font_file_bd (font_info t) = font_file_bd ((font_info t)\<lparr>out_dir := Some (normpath d)\<rparr>)"
      "font_file_bi (font_info t) = font_file_bi ((font_info t)\<lparr>out_dir := Some (normpath d)\<rparr>)"
      by simp_all
    have 2: "\<exists>r. gen_ttf e p d t = Inr r
              \<and> (truthy (ff_path t) \<and> normpath d \<noteq> ''.'' \<longrightarrow>
                   cli_process r
                     = start (the (ff_path t)) (gen_cli_command e (font_info r)) (cli_process t)
                   \<and> (let last_of = (\<lambda>k old.
                          case filter (\<lambda>(f, c). cur_index c = k)
                                 (zip (take 4 f_f) (fnt_sty_combo_list t)) of
                            [] \<Rightarrow> old
                          | x # xs \<Rightarrow> Some (fst (last (x # xs))))
                       in font_file_reg (font_info r)
                            = last_of SEL_REGULAR (font_file_reg (font_info t))
                        \<and> font_file_it (font_info r)
                            = last_of SEL_ITALIC (font_file_it (font_info t))
                        \<and> font_file_bd (font_info r)
                            = last_of SEL_BOLD (font_file_bd (font_info t))
                        \<and> font_file_bi (font_info r)
                            = last_of SEL_BOLDITALIC (font_file_bi (font_info t))))"
      apply (rule exI[of _ "t\<lparr>log_win := [], font_info := ?fi,
               cli_process := start (the (ff_path t)) (gen_cli_command e ?fi) (cli_process t)\<rparr>"])
      apply (simp only: g z Let_def l)
      apply (simp add: assign_loop_last)
      done
    from 1 2 show ?thesis by blast
  qed
qed


text \<open>A session: five files are loaded and a name is typed.\<close>

lemma job3:
  "run env0 [TextEdited ''MyFont''] (load_fonts [''/fonts/A-Regular.ttf'', ''/fonts/B-Italic.ttf'', ''/fonts/C.ttf'',
                  ''/fonts/D-BoldItalic.ttf'', ''/fonts/E-Bold.ttf''] s0)
   = Inr (s0\<lparr>fnt_sty_combo_list :=
               [\<lparr>cur_index = 1, cmb_enabled = True\<rparr>, \<lparr>cur_index = 2, cmb_enabled = True\<rparr>,
                \<lparr>cur_index = 0, cmb_enabled = True\<rparr>, \<lparr>cur_index = 4, cmb_enabled = True\<rparr>],
             fnt_file_name_list :=
               [''A-Regular.ttf'', ''B-Italic.ttf'', ''C.ttf'', ''D-BoldItalic.ttf''],
             font_files := Some [''/fonts/A-Regular.ttf'', ''/fonts/B-Italic.ttf'', ''/fonts/C.ttf'',
                  ''/fonts/D-BoldItalic.ttf'', ''/fonts/E-Bold.ttf''],
             font_info := (font_info s0)\<lparr>font_name := ''MyFont''\<rparr>,
             new_fnt_name := ''MyFont'', gen_ttf_btn := True\<rparr>)"
  by (simp add: s0_def init_def fi0_def env0_def set_family_name_def load_fonts_def
      select_style_def Let_def normpath_def norm_step_def path_split_def rfind_def
      rstrip_sep_def lower_def lower_char_def SEL_REGULAR_def SEL_BOLDITALIC_def SEL_BOLD_def
      SEL_ITALIC_def SEL_NONE_def numeral_eq_Suc)

theorem only_first_four_files_witness:
  "\<exists>t r. run env0 [TextEdited ''MyFont''] (load_fonts [''/fonts/A-Regular.ttf'', ''/fonts/B-Italic.ttf'', ''/fonts/C.ttf'',
                  ''/fonts/D-BoldItalic.ttf'', ''/fonts/E-Bold.ttf''] s0) = Inr t
        \<and> font_files t = Some [''/fonts/A-Regular.ttf'', ''/fonts/B-Italic.ttf'', ''/fonts/C.ttf'',
                  ''/fonts/D-BoldItalic.ttf'', ''/fonts/E-Bold.ttf'']
        \<and> fnt_file_name_list (load_fonts [''/fonts/A-Regular.ttf'', ''/fonts/B-Italic.ttf'', ''/fonts/C.ttf'',
                  ''/fonts/D-BoldItalic.ttf'', ''/fonts/E-Bold.ttf''] s0)
            = [''A-Regular.ttf'', ''B-Italic.ttf'', ''C.ttf'', ''D-BoldItalic.ttf'']
        \<and> gen_ttf env0 [] ''/out'' t = Inr r
        \<and> proc_state (cli_process r) = Starting
        \<and> [font_file_reg (font_info r), font_file_it (font_info r),
            font_file_bd (font_info r), font_file_bi (font_info r)]
           = [Some ''/fonts/A-Regular.ttf'', Some ''/fonts/B-Italic.ttf'', None,
              Some ''/fonts/D-BoldItalic.ttf'']"
proof -
  let ?five = "[''/fonts/A-Regular.ttf'', ''/fonts/B-Italic.ttf'', ''/fonts/C.ttf'',
                  ''/fonts/D-BoldItalic.ttf'', ''/fonts/E-Bold.ttf'']"
  let ?t = "s0\<lparr>fnt_sty_combo_list :=
               [\<lparr>cur_index = 1, cmb_enabled = True\<rparr>, \<lparr>cur_index = 2, cmb_enabled = True\<rparr>,
                \<lparr>cur_index = 0, cmb_enabled = True\<rparr>, \<lparr>cur_index = 4, cmb_enabled = True\<rparr>],
             fnt_file_name_list :=
               [''A-Regular.ttf'', ''B-Italic.ttf'', ''C.ttf'', ''D-BoldItalic.ttf''],
             font_files := Some ?five,
             font_info := (font_info s0)\<lparr>font_name := ''MyFont''\<rparr>,
             new_fnt_name := ''MyFont'', gen_ttf_btn := True\<rparr>"
  have r0: "run env0 [] (init fi0 (Some ''/usr/bin/fontforge'') []) = Inr s0"
    by (simp add: s0_def)
  have l: "4 < length ?five" by simp
  have t: "run env0 [TextEdited ''MyFont''] (load_fonts ?five s0) = Inr ?t"
    by (rule job3)
  have f: "font_files ?t = Some ?five" by simp
  have h: "truthy (ff_path ?t) \<and> normpath ''/out'' \<noteq> ''.''"
    by (simp add: s0_def init_def normpath_def norm_step_def)
  have n: "map (\<lambda>f. snd (path_split (normpath f))) (take 4 ?five)
            = [''A-Regular.ttf'', ''B-Italic.ttf'', ''C.ttf'', ''D-BoldItalic.ttf'']"
    by (simp add: normpath_def norm_step_def path_split_def rfind_def rstrip_sep_def
        numeral_eq_Suc)
  note th = only_first_four_files[OF r0 l t f, of "[]" "''/out''"]
  from th have "fnt_file_name_list (load_fonts ?five s0)
            = map (\<lambda>f. snd (path_split (normpath f))) (take 4 ?five)"
    by (rule conjunct1)
  then have lab: "fnt_file_name_list (load_fonts ?five s0)
            = [''A-Regular.ttf'', ''B-Italic.ttf'', ''C.ttf'', ''D-BoldItalic.ttf'']"
    by (simp only: n)
  from th h obtain r where g: "gen_ttf env0 [] ''/out'' ?t = Inr r"
    and c: "cli_process r
             = start (the (ff_path ?t)) (gen_cli_command env0 (font_info r)) (cli_process ?t)"
    and raw: "let last_of = (\<lambda>k old.
                          case filter (\<lambda>(f, c). cur_index c = k)
                                 (zip (take 4 ?five) (fnt_sty_combo_list ?t)) of
                            [] \<Rightarrow> old
                          | x # xs \<Rightarrow> Some (fst (last (x # xs))))
                       in font_file_reg (font_info r)
                            = last_of SEL_REGULAR (font_file_reg (font_info ?t))
                        \<and> font_file_it (font_info r)
                            = last_of SEL_ITALIC (font_file_it (font_info ?t))
                        \<and> font_file_bd (font_info r)
                            = last_of SEL_BOLD (font_file_bd (font_info ?t))
                        \<and> font_file_bi (font_info r)
                            = last_of SEL_BOLDITALIC (font_file_bi (font_info ?t))"
    by blast
  have a: "[font_file_reg (font_info r), font_file_it (font_info r),
            font_file_bd (font_info r), font_file_bi (font_info r)]
           = [Some ''/fonts/A-Regular.ttf'', Some ''/fonts/B-Italic.ttf'', None,
              Some ''/fonts/D-BoldItalic.ttf'']"
    using raw
    by (simp add: Let_def SEL_REGULAR_def SEL_ITALIC_def SEL_BOLD_def SEL_BOLDITALIC_def
        s0_def init_def fi0_def numeral_eq_Suc)
  have "proc_state (cli_process r) = Starting"
    using c by (simp add: start_def s0_def init_def)
  with t f g a lab show ?thesis by blast
qed

text \<open>
  A session: a file named as a bold one is loaded alone and the fonts are generated, the
  process runs and exits.
\<close>

lemma job4:
  "run env0 [TextEdited ''MyFont'', LoadFontsClicked [''/fonts/E-Bold.ttf''],
             GenTtfClicked [] ''/out'', ProcStarted, ProcFinished 0 NormalExit] s0
   = Inr (s0\<lparr>fnt_sty_combo_list :=
               [\<lparr>cur_index = 3, cmb_enabled = True\<rparr>, \<lparr>cur_index = 0, cmb_enabled = False\<rparr>,
                \<lparr>cur_index = 0, cmb_enabled = False\<rparr>, \<lparr>cur_index = 0, cmb_enabled = False\<rparr>],
             fnt_file_name_list :=
               [''E-Bold.ttf'', ''Load font file...'', ''Load font file...'',
                ''Load font file...''],
             font_files := Some [''/fonts/E-Bold.ttf''],
             font_info := (font_info s0)\<lparr>font_name := ''MyFont'', out_dir := Some ''/out'',
                            font_file_bd := Some ''/fonts/E-Bold.ttf''\<rparr>,
             cli_process := \<lparr>proc_state = NotRunning,
                             proc_command = Some (''/usr/bin/fontforge'', [])\<rparr>,
             new_fnt_name := ''MyFont'', gen_ttf_btn := True,
             prog_bar := \<lparr>pb_minimum = 0, pb_maximum = 100, pb_value = 100\<rparr>\<rparr>)"
  by (simp add: s0_def init_def fi0_def env0_def set_family_name_def load_fonts_def
      select_style_def Let_def normpath_def norm_step_def path_split_def rfind_def
      rstrip_sep_def lower_def lower_char_def gen_ttf_def assign_and_start_def start_def
      manage_proc_def setRange_def setValue_def set_proc_state_def SEL_REGULAR_def
      SEL_BOLDITALIC_def SEL_BOLD_def SEL_ITALIC_def SEL_NONE_def numeral_eq_Suc)

text \<open>
  C10 as stated fails, since a style that none of the first four files has keeps its file
  of an earlier generation: below, the fifth of the selected files was loaded alone and
  generated before, and it is handed on with the first four.
\<close>

theorem earlier_file_kept_counterexample:
  "map_sum id (\<lambda>s. (fnt_file_name_list s, font_files s, proc_state (cli_process s),
                    font_file_bd (font_info s)))
     (run env0 [TextEdited ''MyFont'', LoadFontsClicked [''/fonts/E-Bold.ttf''],
                GenTtfClicked [] ''/out'', ProcStarted, ProcFinished 0 NormalExit,
                LoadFontsClicked [''/fonts/A-Regular.ttf'', ''/fonts/B-Italic.ttf'', ''/fonts/C.ttf'',
                  ''/fonts/D-BoldItalic.ttf'', ''/fonts/E-Bold.ttf''],
                GenTtfClicked [] ''/out''] s0)
   = Inr ([''A-Regular.ttf'', ''B-Italic.ttf'', ''C.ttf'', ''D-BoldItalic.ttf''],
          Some [''/fonts/A-Regular.ttf'', ''/fonts/B-Italic.ttf'', ''/fonts/C.ttf'',
                  ''/fonts/D-BoldItalic.ttf'', ''/fonts/E-Bold.ttf''],
          Starting, Some ''/fonts/E-Bold.ttf'')"
proof -
  have "run env0 ([TextEdited ''MyFont'', LoadFontsClicked [''/fonts/E-Bold.ttf''],
                GenTtfClicked [] ''/out'', ProcStarted, ProcFinished 0 NormalExit]
                @ [LoadFontsClicked [''/fonts/A-Regular.ttf'', ''/fonts/B-Italic.ttf'', ''/fonts/C.ttf'',
                  ''/fonts/D-BoldItalic.ttf'', ''/fonts/E-Bold.ttf''],
                   GenTtfClicked [] ''/out'']) s0
   = Inr (s0\<lparr>fnt_sty_combo_list :=
               [\<lparr>cur_index = 1, cmb_enabled = True\<rparr>, \<lparr>cur_index = 2, cmb_enabled = True\<rparr>,
                \<lparr>cur_index = 0, cmb_enabled = True\<rparr>, \<lparr>cur_index = 4, cmb_enabled = True\<rparr>],
             fnt_file_name_list :=
               [''A-Regular.ttf'', ''B-Italic.ttf'', ''C.ttf'', ''D-BoldItalic.ttf''],
             font_files := Some [''/fonts/A-Regular.ttf'', ''/fonts/B-Italic.ttf'', ''/fonts/C.ttf'',
                  ''/fonts/D-BoldItalic.ttf'', ''/fonts/E-Bold.ttf''],
             font_info := (font_info s0)\<lparr>font_name := ''MyFont'', out_dir := Some ''/out'',
                            font_file_reg := Some ''/fonts/A-Regular.ttf'',
                            font_file_it := Some ''/fonts/B-Italic.ttf'',
                            font_file_bd := Some ''/fonts/E-Bold.ttf'',
                            font_file_bi := Some ''/fonts/D-BoldItalic.ttf''\<rparr>,
             cli_process := \<lparr>proc_state = Starting,
                             proc_command = Some (''/usr/bin/fontforge'', [])\<rparr>,
             new_fnt_name := ''MyFont'', gen_ttf_btn := True,
             prog_bar := \<lparr>pb_minimum = 0, pb_maximum = 100, pb_value = 100\<rparr>\<rparr>)"
    apply (simp only: run_append job4)
    apply (simp add: s0_def init_def fi0_def env0_def load_fonts_def
      select_style_def Let_def normpath_def norm_step_def path_split_def rfind_def
      rstrip_sep_def lower_def lower_char_def gen_ttf_def assign_and_start_def start_def
      setRange_def SEL_REGULAR_def SEL_BOLDITALIC_def SEL_BOLD_def SEL_ITALIC_def SEL_NONE_def
      numeral_eq_Suc)
    done
  then show ?thesis by (simp add: s0_def init_def fi0_def)
qed

section \<open>The command without darkening\<close>

lemma find_in_set: "find P xs = Some x \<Longrightarrow> x \<in> set xs"
  by (induction xs) (auto split: if_splits)

lemma slot_args_flags:
  "Flag f \<in> set (slot_args flag sl fs) \<Longrightarrow> f = flag"
  by (auto simp: slot_args_def split: option.splits)

lemma slot_args_render:
  "set (map render (slot_args flag sl fs)) \<subseteq> insert flag (path ` set fs)"
proof (cases "find (\<lambda>f. slot f = sl) fs")
  case None
  then show ?thesis by (simp add: slot_args_def)
next
  case (Some f)
  then have "f \<in> set fs" by (rule find_in_set)
  then show ?thesis using Some by (auto simp: slot_args_def)
qed

lemma hint_flag_neq: "hint_flag h \<noteq> ''--darken'' \<and> hint_flag h \<noteq> ''--fix-bearings''"
  by (cases h) (simp_all add: hint_flag_def)

lemma build_args_darken:
  assumes "build_args config = Inr as"
  shows "(Flag ''--darken'' \<in> set as) = darkenEnabled config"
    and "(Flag ''--fix-bearings'' \<in> set as) = (darkenEnabled config \<and> modifyBearings config)"
proof -
  obtain dir where dir: "outputDir config = Some dir"
    using assms by (cases "outputDir config") (auto simp: build_args_def split: if_splits)
  have a: "as = [Val (familyName config)]
               @ slot_args ''--regular-file'' Regular (files config)
               @ slot_args ''--italic-file'' Italic (files config)
               @ slot_args ''--bold-file'' Bold (files config)
               @ slot_args ''--bolditalic-file'' BoldItalic (files config)
               @ (if legacyKerning config then [Flag ''--legacy-kerning''] else [])
               @ (if stripPanose config then [Flag ''--strip-panose''] else [])
               @ (if nameHack config then [Flag ''--alt-name''] else [])
               @ [Flag (hint_flag (hintMode config))]
               @ (if darkenEnabled config
                  then [Flag ''--darken'', Val (str_int (darkenAmount config))]
                       @ (if modifyBearings config then [Flag ''--fix-bearings''] else [])
                  else [])
               @ [Flag ''--out-dir'', Val dir]"
    using assms dir by (auto simp: build_args_def split: if_splits)
  have s: "Flag f \<notin> set (slot_args g sl (files config))" if "g \<noteq> f" for f g sl
    using slot_args_flags[of f g sl "files config"] that by auto
  show "(Flag ''--darken'' \<in> set as) = darkenEnabled config"
    unfolding a using hint_flag_neq[of "hintMode config"]
      s[of "''--regular-file''" "''--darken''"] s[of "''--italic-file''" "''--darken''"]
      s[of "''--bold-file''" "''--darken''"] s[of "''--bolditalic-file''" "''--darken''"]
    by auto
  show "(Flag ''--fix-bearings'' \<in> set as) = (darkenEnabled config \<and> modifyBearings config)"
    unfolding a using hint_flag_neq[of "hintMode config"]
      s[of "''--regular-file''" "''--fix-bearings''"] s[of "''--italic-file''" "''--fix-bearings''"]
      s[of "''--bold-file''" "''--fix-bearings''"] s[of "''--bolditalic-file''" "''--fix-bearings''"]
    by auto
qed

lemma build_args_stored:
  "\<not> darkenEnabled config \<Longrightarrow>
   build_args (config\<lparr>darkenAmount := n, modifyBearings := b\<rparr>) = build_args config"
  by (simp add: build_args_def split: option.splits)


lemma build_args_values:
  assumes "build_args config = Inr as" and "\<not> darkenEnabled config"
    and "flag = ''--darken'' \<or> flag = ''--fix-bearings''"
    and "flag \<noteq> familyName config" and "flag \<notin> path ` set (files config)"
    and "outputDir config \<noteq> Some flag"
  shows "flag \<notin> set (map render as)"
proof -
  obtain dir where dir: "outputDir config = Some dir"
    using assms(1) by (cases "outputDir config") (auto simp: build_args_def split: if_splits)
  have a: "as = [Val (familyName config)]
               @ slot_args ''--regular-file'' Regular (files config)
               @ slot_args ''--italic-file'' Italic (files config)
               @ slot_args ''--bold-file'' Bold (files config)
               @ slot_args ''--bolditalic-file'' BoldItalic (files config)
               @ (if legacyKerning config then [Flag ''--legacy-kerning''] else [])
               @ (if stripPanose config then [Flag ''--strip-panose''] else [])
               @ (if nameHack config then [Flag ''--alt-name''] else [])
               @ [Flag (hint_flag (hintMode config))]
               @ [Flag ''--out-dir'', Val dir]"
    using assms(1,2) dir by (auto simp: build_args_def split: if_splits)
  have s: "flag \<notin> render ` set (slot_args f sl (files config))" if "f \<noteq> flag" for f sl
    using slot_args_render[of f sl "files config"] assms(5) that by auto
  have f: "flag \<noteq> ''--regular-file''" "flag \<noteq> ''--italic-file''" "flag \<noteq> ''--bold-file''"
    "flag \<noteq> ''--bolditalic-file''" "flag \<noteq> ''--legacy-kerning''" "flag \<noteq> ''--strip-panose''"
    "flag \<noteq> ''--alt-name''" "flag \<noteq> ''--out-dir''"
    using assms(3) by auto
  have sl: "flag \<notin> render ` set (slot_args ''--regular-file'' Regular (files config))"
    "flag \<notin> render ` set (slot_args ''--italic-file'' Italic (files config))"
    "flag \<notin> render ` set (slot_args ''--bold-file'' Bold (files config))"
    "flag \<notin> render ` set (slot_args ''--bolditalic-file'' BoldItalic (files config))"
    using s f by auto
  have h: "flag \<noteq> hint_flag (hintMode config)"
    using hint_flag_neq[of "hintMode config"] assms(3) by auto
  have d: "flag \<noteq> dir" using assms(6) dir by auto
  show ?thesis
    unfolding a using assms(4) f sl h d by (auto split: if_splits)
qed

text \<open>
  C4 (on the specification's builder). In the arguments that \<open>build\<close> makes of a
  configuration, the flag \<open>--darken\<close> stands exactly when darkening is enabled, and the
  flag \<open>--fix-bearings\<close> exactly when darkening is enabled and the bearings are to be
  modified. So with darkening disabled neither flag is in the command, and the command is
  the same whatever amount and whatever choice for the bearings are stored: no amount is
  passed, rather than an amount of zero. As strings, neither occurs in the command unless
  the family name, the path of a file or the output directory is that string itself.
\<close>

theorem build_darkening_flags:
  assumes "build_args config = Inr as"
  shows "(Flag ''--darken'' \<in> set as) = darkenEnabled config
         \<and> (Flag ''--fix-bearings'' \<in> set as) = (darkenEnabled config \<and> modifyBearings config)
         \<and> build config = Inr (map render as)
         \<and> (\<not> darkenEnabled config
              \<longrightarrow> build (config\<lparr>darkenAmount := n, modifyBearings := b\<rparr>) = Inr (map render as))
         \<and> (\<not> darkenEnabled config \<and> (flag = ''--darken'' \<or> flag = ''--fix-bearings'')
              \<and> flag \<noteq> familyName config \<and> flag \<notin> path ` set (files config)
              \<and> outputDir config \<noteq> Some flag
              \<longrightarrow> flag \<notin> set (map render as))"
proof -
  have 3: "build config = Inr (map render as)"
    using assms by (simp add: build_def)
  have 4: "\<not> darkenEnabled config
              \<longrightarrow> build (config\<lparr>darkenAmount := n, modifyBearings := b\<rparr>) = Inr (map render as)"
    using assms build_args_stored[where config = config and n = n and b = b]
    by (simp add: build_def)
  from build_args_darken[OF assms] 3 4 build_args_values[OF assms, of flag]
  show ?thesis by blast
qed

theorem build_darkening_flags_witness:
  "\<not> darkenEnabled config0 \<and> darkenAmount config0 = 30 \<and> modifyBearings config0
   \<and> build_args config0
       = Inr [Val ''MyFont'', Flag ''--regular-file'', Val ''a.ttf'', Flag ''--hint-keep'',
              Flag ''--out-dir'', Val ''/out'']
   \<and> Flag ''--darken'' \<notin> set [Val ''MyFont'', Flag ''--regular-file'', Val ''a.ttf'',
                                 Flag ''--hint-keep'', Flag ''--out-dir'', Val ''/out'']
   \<and> build config0
       = Inr [''MyFont'', ''--regular-file'', ''a.ttf'', ''--hint-keep'', ''--out-dir'', ''/out'']
   \<and> build (config0\<lparr>darkenAmount := 50, modifyBearings := False\<rparr>)
       = Inr [''MyFont'', ''--regular-file'', ''a.ttf'', ''--hint-keep'', ''--out-dir'', ''/out'']"
proof -
  have c: "\<not> darkenEnabled config0 \<and> darkenAmount config0 = 30 \<and> modifyBearings config0"
    by (simp add: config0_def)
  have b: "build_args config0
       = Inr [Val ''MyFont'', Flag ''--regular-file'', Val ''a.ttf'', Flag ''--hint-keep'',
              Flag ''--out-dir'', Val ''/out'']"
    by (simp add: build_args_def config0_def isValidFamilyName_def reserved_chars_def
        whitespace_chars_def slot_args_def hint_flag_def)
  from build_darkening_flags[OF b, where n = 50 and b = False] c b
  show ?thesis by simp
qed

end
